theory Spec2Isabelle
  imports Complex_Main "HOL-Library.Monad_Syntax"
begin

section \<open>Arithmetic conventions\<close>

text \<open>
  \<^verbatim>\<open>amrex::Real\<close> and \<^verbatim>\<open>amrex::ParticleReal\<close> are modelled as the exact reals:
  the statements below are about the formulas of the code evaluated without rounding,
  except where the builder is taken in binary64 arithmetic, with one rounding for every
  operation. A quotient exists as a real number only when the divisor is not zero (IEEE
  arithmetic would store an infinity or a NaN there), so a division is a partial
  operation.
\<close>

definition checked_div :: "real \<Rightarrow> real \<Rightarrow> real option" where
  "checked_div a b = (if b = 0 then None else Some (a / b))"

section \<open>CartesianCKCAlgorithm\<close>

text \<open>
  The header is compiled either with \<^verbatim>\<open>WARPX_DIM_3D\<close> or with \<^verbatim>\<open>WARPX_DIM_XZ\<close>;
  the preprocessor choice is the first argument of every function.
\<close>

datatype dim = DIM_3D | DIM_XZ

record ckc_coefs =
  alphax :: real
  alphay :: real
  alphaz :: real
  betaxy :: real
  betaxz :: real
  betayx :: real
  betayz :: real
  betazx :: real
  betazy :: real
  gammax :: real
  gammay :: real
  gammaz :: real

text \<open>The sum \<^verbatim>\<open>ry*rz + rz*rx + rx*ry\<close>, the divisor of lines 42 and 49.\<close>

definition r_fac :: "real \<Rightarrow> real \<Rightarrow> real \<Rightarrow> real" where
  "r_fac rx ry rz = ry * rz + rz * rx + rx * ry"

text \<open>Lines 38 to 41: \<^verbatim>\<open>delta\<close> and the three squared ratios.\<close>

definition ratios_3D :: "real \<Rightarrow> real \<Rightarrow> real \<Rightarrow> (real \<times> real \<times> real) option" where
  "ratios_3D inv_dx inv_dy inv_dz = do {
     let delta = max inv_dx (max inv_dy inv_dz);
     qx \<leftarrow> checked_div inv_dx delta;
     qy \<leftarrow> checked_div inv_dy delta;
     qz \<leftarrow> checked_div inv_dz delta;
     Some (qx * qx, qy * qy, qz * qz)
   }"

text \<open>Lines 38 to 55, the \<^verbatim>\<open>WARPX_DIM_3D\<close> branch.\<close>

definition coefs_3D :: "real \<Rightarrow> real \<Rightarrow> real \<Rightarrow> ckc_coefs option" where
  "coefs_3D inv_dx inv_dy inv_dz = do {
     (rx, ry, rz) \<leftarrow> ratios_3D inv_dx inv_dy inv_dz;
     t \<leftarrow> checked_div (rx * ry * rz) (r_fac rx ry rz);
     let beta = 0.125 * (1 - t);
     inv_r_fac \<leftarrow> checked_div 1 (r_fac rx ry rz);
     let gx = ry * rz * (0.0625 - 0.125 * ry * rz * inv_r_fac);
     let gy = rx * rz * (0.0625 - 0.125 * rx * rz * inv_r_fac);
     let gz = rx * ry * (0.0625 - 0.125 * rx * ry * inv_r_fac);
     Some \<lparr> alphax = (1 - 2 * ry * beta - 2 * rz * beta - 4 * gx) * inv_dx,
            alphay = (1 - 2 * rx * beta - 2 * rz * beta - 4 * gy) * inv_dy,
            alphaz = (1 - 2 * rx * beta - 2 * ry * beta - 4 * gz) * inv_dz,
            betaxy = ry * beta * inv_dx,
            betaxz = rz * beta * inv_dx,
            betayx = rx * beta * inv_dy,
            betayz = rz * beta * inv_dy,
            betazx = rx * beta * inv_dz,
            betazy = ry * beta * inv_dz,
            gammax = gx, gammay = gy, gammaz = gz \<rparr>
   }"

text \<open>Lines 57 to 69, the \<^verbatim>\<open>WARPX_DIM_XZ\<close> branch.\<close>

definition coefs_XZ :: "real \<Rightarrow> real \<Rightarrow> ckc_coefs option" where
  "coefs_XZ inv_dx inv_dz = do {
     let delta = max inv_dx inv_dz;
     qx \<leftarrow> checked_div inv_dx delta;
     qz \<leftarrow> checked_div inv_dz delta;
     let rx = qx * qx;
     let rz = qz * qz;
     let beta = 0.125;
     Some \<lparr> alphax = (1 - 2 * rz * beta) * inv_dx,
            alphay = 0,
            alphaz = (1 - 2 * rx * beta) * inv_dz,
            betaxy = 0,
            betaxz = beta * rz * inv_dx,
            betayx = 0,
            betayz = 0,
            betazx = beta * rx * inv_dz,
            betazy = 0,
            gammax = 0, gammay = 0, gammaz = 0 \<rparr>
   }"

text \<open>
  \<^verbatim>\<open>resize(6)\<close> keeps the entries a vector already has and completes it to six entries.
  The entry at index 5 is never assigned and never read by the operators; the model
  completes with zeros.
\<close>

definition resize :: "nat \<Rightarrow> real list \<Rightarrow> real list" where
  "resize n v = take n v @ replicate (n - length v) 0"

text \<open>
  \<^verbatim>\<open>InitializeStencilCoefficients\<close>: \<^verbatim>\<open>cell_size\<close> is the \<^verbatim>\<open>std::array<Real,3>\<close>, the
  three vectors are passed by reference and come back resized and filled (lines 73 to 90).
\<close>

definition InitializeStencilCoefficients ::
  "dim \<Rightarrow> real \<times> real \<times> real \<Rightarrow> real list \<times> real list \<times> real list
     \<Rightarrow> (real list \<times> real list \<times> real list) option" where
  "InitializeStencilCoefficients d cell_size vecs =
     (case cell_size of (cell_size0, cell_size1, cell_size2) \<Rightarrow>
      case vecs of (stencil_coefs_x, stencil_coefs_y, stencil_coefs_z) \<Rightarrow> do {
        inv_dx \<leftarrow> checked_div 1 cell_size0;
        inv_dy \<leftarrow> checked_div 1 cell_size1;
        inv_dz \<leftarrow> checked_div 1 cell_size2;
        c \<leftarrow> (case d of DIM_3D \<Rightarrow> coefs_3D inv_dx inv_dy inv_dz
                       | DIM_XZ \<Rightarrow> coefs_XZ inv_dx inv_dz);
        Some ((resize 6 stencil_coefs_x)
                [0 := inv_dx, 1 := alphax c, 2 := betaxy c, 3 := betaxz c,
                 4 := gammax c * inv_dx],
              (resize 6 stencil_coefs_y)
                [0 := inv_dy, 1 := alphay c, 2 := betayz c, 3 := betayx c,
                 4 := gammay c * inv_dy],
              (resize 6 stencil_coefs_z)
                [0 := inv_dz, 1 := alphaz c, 2 := betazx c, 3 := betazy c,
                 4 := gammaz c * inv_dz])
      })"

subsection \<open>The builder in binary64 arithmetic\<close>

text \<open>
  \<^verbatim>\<open>amrex::Real\<close> is a binary64 number by default, and every operation of the builder
  rounds its exact result to the nearest binary64 number, ties to even. \<open>rne64\<close> is
  that rounding: the exponent of the result is the exponent of the argument, not below
  the smallest normal exponent \<open>-1022\<close>, and the result is the multiple of two to that
  exponent minus 52 nearest to the argument. \<open>fl64\<close> is the stored result: \<open>None\<close>
  when the rounded value is out of the finite range, where the code holds an infinity.
\<close>

definition pow2 :: "int \<Rightarrow> real" where
  "pow2 k = (if 0 \<le> k then 2 ^ nat k else 1 / 2 ^ nat (- k))"

definition round_even :: "real \<Rightarrow> int" where
  "round_even y =
     (let f = \<lfloor>y\<rfloor>
      in if y - of_int f < 1 / 2 then f
         else if 1 / 2 < y - of_int f then f + 1
         else if even f then f else f + 1)"

definition ulp_exp :: "real \<Rightarrow> int" where
  "ulp_exp x = max \<lfloor>log 2 \<bar>x\<bar>\<rfloor> (- 1022) - 52"

definition rne64 :: "real \<Rightarrow> real" where
  "rne64 x = (if x = 0 then 0
              else of_int (round_even (x / pow2 (ulp_exp x))) * pow2 (ulp_exp x))"

definition fl64 :: "real \<Rightarrow> real option" where
  "fl64 x = (if \<bar>rne64 x\<bar> < 2 ^ 1024 then Some (rne64 x) else None)"











subsection \<open>The derivative operators\<close>

text \<open>
  An \<^verbatim>\<open>amrex::Array4<Real>\<close> is read through \<^verbatim>\<open>F(i,j,k)\<close> only; it is a function of
  three indices. \<^verbatim>\<open>coefs_x\<close> is the pointer to the stored coefficients, read by index,
  and \<^verbatim>\<open>n_coefs_x\<close> is passed and never used.
\<close>

type_synonym field = "int \<Rightarrow> int \<Rightarrow> int \<Rightarrow> real"

definition UpwardDx :: "dim \<Rightarrow> field \<Rightarrow> real list \<Rightarrow> int \<Rightarrow> int \<Rightarrow> int \<Rightarrow> int \<Rightarrow> real" where
  "UpwardDx d F coefs_x n_coefs_x i j k =
     (case d of
        DIM_3D \<Rightarrow>
          coefs_x ! 1 * (F (i+1) j k - F i j k)
        + coefs_x ! 2 * (F (i+1) (j+1) k - F i (j+1) k
                      +  F (i+1) (j-1) k - F i (j-1) k)
        + coefs_x ! 3 * (F (i+1) j (k+1) - F i j (k+1)
                      +  F (i+1) j (k-1) - F i j (k-1))
        + coefs_x ! 4 * (F (i+1) (j+1) (k+1) - F i (j+1) (k+1)
                      +  F (i+1) (j-1) (k+1) - F i (j-1) (k+1)
                      +  F (i+1) (j+1) (k-1) - F i (j+1) (k-1)
                      +  F (i+1) (j-1) (k-1) - F i (j-1) (k-1))
      | DIM_XZ \<Rightarrow>
          coefs_x ! 1 * (F (i+1) j k - F i j k)
        + coefs_x ! 3 * (F (i+1) (j+1) k - F i (j+1) k
                      +  F (i+1) (j-1) k - F i (j-1) k))"

definition DownwardDx :: "dim \<Rightarrow> field \<Rightarrow> real list \<Rightarrow> int \<Rightarrow> int \<Rightarrow> int \<Rightarrow> int \<Rightarrow> real" where
  "DownwardDx d F coefs_x n_coefs_x i j k = coefs_x ! 0 * (F i j k - F (i-1) j k)"

definition UpwardDy :: "dim \<Rightarrow> field \<Rightarrow> real list \<Rightarrow> int \<Rightarrow> int \<Rightarrow> int \<Rightarrow> int \<Rightarrow> real" where
  "UpwardDy d F coefs_y n_coefs_y i j k =
     (case d of
        DIM_3D \<Rightarrow>
          coefs_y ! 1 * (F i (j+1) k - F i j k)
        + coefs_y ! 3 * (F (i+1) (j+1) k - F (i+1) j k
                      +  F (i-1) (j+1) k - F (i-1) j k)
        + coefs_y ! 2 * (F i (j+1) (k+1) - F i j (k+1)
                      +  F i (j+1) (k-1) - F i j (k-1))
        + coefs_y ! 4 * (F (i+1) (j+1) (k+1) - F (i+1) j (k+1)
                      +  F (i-1) (j+1) (k+1) - F (i-1) j (k+1)
                      +  F (i+1) (j+1) (k-1) - F (i+1) j (k-1)
                      +  F (i-1) (j+1) (k-1) - F (i-1) j (k-1))
      | DIM_XZ \<Rightarrow> 0)"

definition DownwardDy :: "dim \<Rightarrow> field \<Rightarrow> real list \<Rightarrow> int \<Rightarrow> int \<Rightarrow> int \<Rightarrow> int \<Rightarrow> real" where
  "DownwardDy d F coefs_y n_coefs_y i j k =
     (case d of
        DIM_3D \<Rightarrow> coefs_y ! 0 * (F i j k - F i (j-1) k)
      | DIM_XZ \<Rightarrow> 0)"

definition UpwardDz :: "dim \<Rightarrow> field \<Rightarrow> real list \<Rightarrow> int \<Rightarrow> int \<Rightarrow> int \<Rightarrow> int \<Rightarrow> real" where
  "UpwardDz d F coefs_z n_coefs_z i j k =
     (case d of
        DIM_3D \<Rightarrow>
          coefs_z ! 1 * (F i j (k+1) - F i j k)
        + coefs_z ! 2 * (F (i+1) j (k+1) - F (i+1) j k
                      +  F (i-1) j (k+1) - F (i-1) j k)
        + coefs_z ! 3 * (F i (j+1) (k+1) - F i (j+1) k
                      +  F i (j-1) (k+1) - F i (j-1) k)
        + coefs_z ! 4 * (F (i+1) (j+1) (k+1) - F (i+1) (j+1) k
                      +  F (i-1) (j+1) (k+1) - F (i-1) (j+1) k
                      +  F (i+1) (j-1) (k+1) - F (i+1) (j-1) k
                      +  F (i-1) (j-1) (k+1) - F (i-1) (j-1) k)
      | DIM_XZ \<Rightarrow>
          coefs_z ! 1 * (F i (j+1) k - F i j k)
        + coefs_z ! 2 * (F (i+1) (j+1) k - F (i+1) j k
                      +  F (i-1) (j+1) k - F (i-1) j k))"

definition DownwardDz :: "dim \<Rightarrow> field \<Rightarrow> real list \<Rightarrow> int \<Rightarrow> int \<Rightarrow> int \<Rightarrow> int \<Rightarrow> real" where
  "DownwardDz d F coefs_z n_coefs_z i j k =
     (case d of
        DIM_3D \<Rightarrow> coefs_z ! 0 * (F i j k - F i j (k-1))
      | DIM_XZ \<Rightarrow> coefs_z ! 0 * (F i j k - F i (j-1) k))"

text \<open>
  The fields of the test properties: a field that is linear in one index with slope
  \<^verbatim>\<open>dx\<close>, and a globally constant field.
\<close>

definition linear_i :: "real \<Rightarrow> field" where
  "linear_i dx i j k = of_int i * dx"

definition linear_j :: "real \<Rightarrow> field" where
  "linear_j dx i j k = of_int j * dx"

definition linear_k :: "real \<Rightarrow> field" where
  "linear_k dx i j k = of_int k * dx"

definition constant_field :: "real \<Rightarrow> field" where
  "constant_field c i j k = c"

section \<open>Particle storage\<close>

text \<open>
  \<^verbatim>\<open>PIdx\<close>: the compile-time real attributes. \<^verbatim>\<open>theta\<close> exists only under
  \<^verbatim>\<open>WARPX_DIM_RZ\<close>, so \<^verbatim>\<open>nattribs\<close> depends on that switch.
\<close>

definition PIdx_w :: int where "PIdx_w = 0"
definition PIdx_ux :: int where "PIdx_ux = 1"
definition PIdx_uy :: int where "PIdx_uy = 2"
definition PIdx_uz :: int where "PIdx_uz = 3"
definition PIdx_Ex :: int where "PIdx_Ex = 4"
definition PIdx_Ey :: int where "PIdx_Ey = 5"
definition PIdx_Ez :: int where "PIdx_Ez = 6"
definition PIdx_Bx :: int where "PIdx_Bx = 7"
definition PIdx_By :: int where "PIdx_By = 8"
definition PIdx_Bz :: int where "PIdx_Bz = 9"
definition PIdx_theta :: int where "PIdx_theta = 10"

definition PIdx_nattribs :: "bool \<Rightarrow> int" where
  "PIdx_nattribs dim_rz = (if dim_rz then 11 else 10)"

text \<open>
  The array-of-structs part of a particle (\<^verbatim>\<open>amrex::Particle<0,0>\<close>): positions, id
  and cpu. A tile's data (\<^verbatim>\<open>ParticleTileData\<close>) holds the array of structs, one array
  per compile-time real attribute and one per runtime real attribute; its size is the
  length of \<^verbatim>\<open>m_aos\<close>.
\<close>

record Particle =
  pos :: "real list"
  id_of :: int
  cpu :: int

record ParticleTileData =
  m_aos :: "Particle list"
  m_rdata :: "real list list"
  m_runtime_rdata :: "real list list"

text \<open>
  \<^verbatim>\<open>a[c][i]\<close> on raw pointers, read and written. An index outside the arrays is
  undefined behaviour in C++; the model returns \<open>None\<close> there.
\<close>

definition rd :: "real list list \<Rightarrow> int \<Rightarrow> int \<Rightarrow> real option" where
  "rd a c i = (if 0 \<le> c \<and> nat c < length a \<and> 0 \<le> i \<and> nat i < length (a ! nat c)
               then Some (a ! nat c ! nat i) else None)"

definition wr :: "real list list \<Rightarrow> int \<Rightarrow> int \<Rightarrow> real \<Rightarrow> real list list option" where
  "wr a c i v = (if 0 \<le> c \<and> nat c < length a \<and> 0 \<le> i \<and> nat i < length (a ! nat c)
                 then Some (a[nat c := (a ! nat c)[nat i := v]]) else None)"

text \<open>\<^verbatim>\<open>aos[i].id() = v\<close>.\<close>

definition set_id :: "Particle list \<Rightarrow> int \<Rightarrow> int \<Rightarrow> Particle list option" where
  "set_id aos i v = (if 0 \<le> i \<and> nat i < length aos
                     then Some (aos[nat i := (aos ! nat i)\<lparr>id_of := v\<rparr>]) else None)"

text \<open>
  Slot \<open>i\<close> of a tile is allocated: the tile has the compile-time attribute arrays and
  every array of the tile reaches index \<open>i\<close>.
\<close>

definition has_slot :: "bool \<Rightarrow> ParticleTileData \<Rightarrow> int \<Rightarrow> bool" where
  "has_slot dim_rz ptd i =
     (0 \<le> i \<and> nat i < length (m_aos ptd)
      \<and> int (length (m_rdata ptd)) = PIdx_nattribs dim_rz
      \<and> list_all (\<lambda>a. nat i < length a) (m_rdata ptd))"

section \<open>QED pair generation\<close>

text \<open>\<^verbatim>\<open>PairGenerationFilterFunc::operator()\<close>, with the member of the functor first.\<close>

definition PairGenerationFilterFunc :: "int \<Rightarrow> ParticleTileData \<Rightarrow> int \<Rightarrow> bool option" where
  "PairGenerationFilterFunc m_opt_depth_runtime_comp ptd i = do {
     opt_depth \<leftarrow> rd (m_runtime_rdata ptd) m_opt_depth_runtime_comp i;
     Some (opt_depth < 0)
   }"

text \<open>
  The collaborator \<^verbatim>\<open>BreitWheelerGeneratePairs\<close> is a parameter of the transform. It
  receives the photon momentum, the fields and the weight and fills the eight output
  variables through pointers; it may draw random numbers, so it also takes and returns
  an abstract generator state.
\<close>

record pair_out =
  e_px :: real
  e_py :: real
  e_pz :: real
  p_px :: real
  p_py :: real
  p_pz :: real
  e_w :: real
  p_w :: real

type_synonym 'r generate_functor =
  "'r \<Rightarrow> real \<times> real \<times> real \<Rightarrow> real \<times> real \<times> real \<Rightarrow> real \<times> real \<times> real \<Rightarrow> real
      \<Rightarrow> pair_out \<times> 'r"

text \<open>
  \<^verbatim>\<open>PairGenerationTransformFunc::operator()\<close>. The member \<^verbatim>\<open>m_generate_functor\<close> comes
  first; \<^verbatim>\<open>me\<close> is the constant \<^verbatim>\<open>PhysConst::m_e\<close>, whose header is not part of the
  sources at hand. The three tiles are three different objects (photons, and the two
  product species); the result is their new contents.
\<close>

definition PairGenerationTransformFunc ::
  "'r generate_functor \<Rightarrow> real \<Rightarrow> 'r
     \<Rightarrow> ParticleTileData \<Rightarrow> ParticleTileData \<Rightarrow> ParticleTileData \<Rightarrow> int \<Rightarrow> int \<Rightarrow> int
     \<Rightarrow> (ParticleTileData \<times> ParticleTileData \<times> ParticleTileData \<times> 'r) option" where
  "PairGenerationTransformFunc m_generate_functor me rng dst1 dst2 src i_src i_dst1 i_dst2 = do {
     one_over_me \<leftarrow> checked_div 1 me;
     w \<leftarrow> rd (m_rdata src) PIdx_w i_src;
     ux \<leftarrow> rd (m_rdata src) PIdx_ux i_src;
     uy \<leftarrow> rd (m_rdata src) PIdx_uy i_src;
     uz \<leftarrow> rd (m_rdata src) PIdx_uz i_src;
     ex \<leftarrow> rd (m_rdata src) PIdx_Ex i_src;
     ey \<leftarrow> rd (m_rdata src) PIdx_Ey i_src;
     ez \<leftarrow> rd (m_rdata src) PIdx_Ez i_src;
     bx \<leftarrow> rd (m_rdata src) PIdx_Bx i_src;
     by \<leftarrow> rd (m_rdata src) PIdx_By i_src;
     bz \<leftarrow> rd (m_rdata src) PIdx_Bz i_src;
     let px = ux * me;
     let py = uy * me;
     let pz = uz * me;
     let (out, rng') = m_generate_functor rng (px, py, pz) (ex, ey, ez) (bx, by, bz) w;
     d1 \<leftarrow> wr (m_rdata dst1) PIdx_w i_dst1 (e_w out);
     d1 \<leftarrow> wr d1 PIdx_ux i_dst1 (e_px out * one_over_me);
     d1 \<leftarrow> wr d1 PIdx_uy i_dst1 (e_py out * one_over_me);
     d1 \<leftarrow> wr d1 PIdx_uz i_dst1 (e_pz out * one_over_me);
     d2 \<leftarrow> wr (m_rdata dst2) PIdx_w i_dst2 (p_w out);
     d2 \<leftarrow> wr d2 PIdx_ux i_dst2 (p_px out * one_over_me);
     d2 \<leftarrow> wr d2 PIdx_uy i_dst2 (p_py out * one_over_me);
     d2 \<leftarrow> wr d2 PIdx_uz i_dst2 (p_pz out * one_over_me);
     aos \<leftarrow> set_id (m_aos src) i_src (- 1);
     Some (dst1\<lparr>m_rdata := d1\<rparr>, dst2\<lparr>m_rdata := d2\<rparr>, src\<lparr>m_aos := aos\<rparr>, rng')
   }"

text \<open>
  One call of the transform per flagged photon, in the order of the list; each entry
  gives the source index and the two destination indices of a call.
\<close>

fun transform_each ::
  "'r generate_functor \<Rightarrow> real \<Rightarrow> (int \<times> int \<times> int) list
     \<Rightarrow> ParticleTileData \<times> ParticleTileData \<times> ParticleTileData \<times> 'r
     \<Rightarrow> (ParticleTileData \<times> ParticleTileData \<times> ParticleTileData \<times> 'r) option" where
  "transform_each g me [] st = Some st"
| "transform_each g me ((i_src, i_dst1, i_dst2) # ts) (dst1, dst2, src, rng) = do {
     st' \<leftarrow> PairGenerationTransformFunc g me rng dst1 dst2 src i_src i_dst1 i_dst2;
     transform_each g me ts st'
   }"

text \<open>The weight attribute of slot \<open>i\<close> of a tile, and its three momentum attributes.\<close>

definition weight_at :: "ParticleTileData \<Rightarrow> int \<Rightarrow> real" where
  "weight_at ptd i = m_rdata ptd ! nat PIdx_w ! nat i"

definition momentum_at :: "ParticleTileData \<Rightarrow> int \<Rightarrow> real \<times> real \<times> real" where
  "momentum_at ptd i = (m_rdata ptd ! nat PIdx_ux ! nat i,
                        m_rdata ptd ! nat PIdx_uy ! nat i,
                        m_rdata ptd ! nat PIdx_uz ! nat i)"

text \<open>
  The collaborator of the end-to-end test: both daughters get half of the momentum it
  is given and weight one; it has no state.
\<close>

definition half_momentum_double :: "unit generate_functor" where
  "half_momentum_double rng p E B w =
     (case p of (px, py, pz) \<Rightarrow>
        (\<lparr> e_px = px / 2, e_py = py / 2, e_pz = pz / 2,
           p_px = px / 2, p_py = py / 2, p_pz = pz / 2,
           e_w = 1, p_w = 1 \<rparr>, rng))"

text \<open>
  Three descriptions used to state what the transform does. \<open>call_generate\<close> is the
  collaborator call the transform makes for source slot \<open>i\<close> of the attribute arrays
  \<open>a\<close>; \<open>generated\<close> lists the collaborator's outputs over successive calls, the
  generator state passing from one call to the next; \<open>write_daughter\<close> is the effect
  of the four writes to one destination when all of them are in range.
\<close>

definition call_generate ::
  "'r generate_functor \<Rightarrow> real \<Rightarrow> real list list \<Rightarrow> int \<Rightarrow> 'r \<Rightarrow> pair_out \<times> 'r" where
  "call_generate g me a i rng =
     g rng (a ! nat PIdx_ux ! nat i * me, a ! nat PIdx_uy ! nat i * me, a ! nat PIdx_uz ! nat i * me)
           (a ! nat PIdx_Ex ! nat i, a ! nat PIdx_Ey ! nat i, a ! nat PIdx_Ez ! nat i)
           (a ! nat PIdx_Bx ! nat i, a ! nat PIdx_By ! nat i, a ! nat PIdx_Bz ! nat i)
           (a ! nat PIdx_w ! nat i)"

fun generated ::
  "'r generate_functor \<Rightarrow> real \<Rightarrow> real list list \<Rightarrow> int list \<Rightarrow> 'r \<Rightarrow> pair_out list" where
  "generated g me a [] rng = []"
| "generated g me a (i # is) rng =
     fst (call_generate g me a i rng) # generated g me a is (snd (call_generate g me a i rng))"

definition write_daughter ::
  "real list list \<Rightarrow> int \<Rightarrow> real \<Rightarrow> real \<Rightarrow> real \<Rightarrow> real \<Rightarrow> real list list" where
  "write_daughter a i vw vx vy vz =
     a[nat PIdx_w := (a ! nat PIdx_w)[nat i := vw],
       nat PIdx_ux := (a ! nat PIdx_ux)[nat i := vx],
       nat PIdx_uy := (a ! nat PIdx_uy)[nat i := vy],
       nat PIdx_uz := (a ! nat PIdx_uz)[nat i := vz]]"

text \<open>
  Data for concrete runs: a photon tile with two photons (weights 1 and 3) whose
  optical depth, runtime component 0, is negative; a product tile with \<open>n\<close> allocated
  slots; and a collaborator that gives each daughter half of the momentum and half of
  the weight it is given.
\<close>

definition photon_tile :: ParticleTileData where
  "photon_tile =
     \<lparr> m_aos = [\<lparr> pos = [0, 0, 0], id_of = 7, cpu = 0 \<rparr>,
                \<lparr> pos = [1, 1, 1], id_of = 8, cpu = 0 \<rparr>],
       m_rdata = [[1, 3], [2, 4], [4, 8], [6, 2], [5, 5], [0, 0], [0, 0], [0, 0], [9, 9], [0, 0]],
       m_runtime_rdata = [[- 1, - 2]] \<rparr>"

definition product_tile :: "nat \<Rightarrow> ParticleTileData" where
  "product_tile n =
     \<lparr> m_aos = replicate n \<lparr> pos = [0, 0, 0], id_of = 0, cpu = 0 \<rparr>,
       m_rdata = replicate 10 (replicate n 0),
       m_runtime_rdata = [] \<rparr>"

definition weight_split_double :: "unit generate_functor" where
  "weight_split_double rng p E B w =
     (case p of (px, py, pz) \<Rightarrow>
        (\<lparr> e_px = px / 2, e_py = py / 2, e_pz = pz / 2,
           p_px = px / 2, p_py = py / 2, p_pz = pz / 2,
           e_w = w / 2, p_w = w / 2 \<rparr>, rng))"

section \<open>Attribute registration\<close>

text \<open>
  The part of \<^verbatim>\<open>WarpXParticleContainer\<close> that \<^verbatim>\<open>AddRealComp\<close> touches: the two name
  maps and, from the base class \<^verbatim>\<open>amrex::ParticleContainer<0,0,PIdx::nattribs>\<close>, the
  count of runtime real components and their communication flags. The base class is
  AMReX code, outside the repository: its \<^verbatim>\<open>NumRealComps()\<close> is the compile-time count
  plus the runtime count, and its \<^verbatim>\<open>AddRealComp(comm)\<close> adds one runtime component
  with the given flag.
\<close>

record WarpXParticleContainer =
  particle_comps :: "string \<rightharpoonup> int"
  particle_runtime_comps :: "string \<rightharpoonup> int"
  m_num_runtime_real :: nat
  h_communicate_real_comp :: "bool list"

definition NumRealComps :: "bool \<Rightarrow> WarpXParticleContainer \<Rightarrow> int" where
  "NumRealComps dim_rz pc = PIdx_nattribs dim_rz + int (m_num_runtime_real pc)"

definition AddRealComp_base :: "bool \<Rightarrow> WarpXParticleContainer \<Rightarrow> WarpXParticleContainer" where
  "AddRealComp_base comm pc =
     pc\<lparr> m_num_runtime_real := Suc (m_num_runtime_real pc),
         h_communicate_real_comp := h_communicate_real_comp pc @ [comm] \<rparr>"

definition AddRealComp ::
  "bool \<Rightarrow> string \<Rightarrow> bool \<Rightarrow> WarpXParticleContainer \<Rightarrow> WarpXParticleContainer" where
  "AddRealComp dim_rz name comm pc =
     (let pc1 = pc\<lparr> particle_comps := (particle_comps pc)(name \<mapsto> NumRealComps dim_rz pc) \<rparr>;
          pc2 = pc1\<lparr> particle_runtime_comps :=
                       (particle_runtime_comps pc1)
                         (name \<mapsto> NumRealComps dim_rz pc1 - PIdx_nattribs dim_rz) \<rparr>
      in AddRealComp_base comm pc2)"

text \<open>Successive registrations, in the order of the list.\<close>

fun AddRealComps ::
  "bool \<Rightarrow> (string \<times> bool) list \<Rightarrow> WarpXParticleContainer \<Rightarrow> WarpXParticleContainer" where
  "AddRealComps dim_rz [] pc = pc"
| "AddRealComps dim_rz ((name, comm) # rest) pc =
     AddRealComps dim_rz rest (AddRealComp dim_rz name comm pc)"

text \<open>A container in which nothing has been registered yet.\<close>

definition fresh_container :: WarpXParticleContainer where
  "fresh_container = \<lparr> particle_comps = Map.empty, particle_runtime_comps = Map.empty,
                       m_num_runtime_real = 0, h_communicate_real_comp = [] \<rparr>"

section \<open>Properties of the stencil builder and of the derivative operators\<close>


lemma resize_length: "length (resize n v) = n"
  by (simp add: resize_def)

lemma checked_div_eq_Some: "checked_div a b = Some q \<longleftrightarrow> b \<noteq> 0 \<and> q = a / b"
  by (auto simp: checked_div_def)

lemma ratios_3D_pos:
  assumes "0 < a" "0 < b" "0 < c"
  shows "\<exists>rx ry rz. ratios_3D a b c = Some (rx, ry, rz) \<and> 0 < rx \<and> 0 < ry \<and> 0 < rz"
proof -
  define delta where "delta = max a (max b c)"
  have d: "0 < delta" using assms by (simp add: delta_def max_def)
  have "ratios_3D a b c = Some (a / delta * (a / delta), b / delta * (b / delta), c / delta * (c / delta))"
    using d by (simp add: ratios_3D_def delta_def[symmetric] checked_div_def)
  moreover have "0 < a / delta * (a / delta)" "0 < b / delta * (b / delta)" "0 < c / delta * (c / delta)"
    using assms d by simp_all
  ultimately show ?thesis by blast
qed

lemma r_fac_pos: "0 < rx \<Longrightarrow> 0 < ry \<Longrightarrow> 0 < rz \<Longrightarrow> 0 < r_fac rx ry rz"
  by (simp add: r_fac_def add_pos_pos)

lemma coefs_3D_defined:
  assumes "0 < a" "0 < b" "0 < c"
  shows "\<exists>cs. coefs_3D a b c = Some cs"
proof -
  obtain rx ry rz where r: "ratios_3D a b c = Some (rx, ry, rz)" "0 < rx" "0 < ry" "0 < rz"
    using ratios_3D_pos[OF assms] by blast
  have "r_fac rx ry rz \<noteq> 0" using r_fac_pos[OF r(2-4)] by simp
  then show ?thesis
    by (simp add: coefs_3D_def r checked_div_def Let_def)
qed

lemma coefs_3D_sum:
  assumes "coefs_3D a b c = Some cs"
  shows "alphax cs + 2 * betaxy cs + 2 * betaxz cs + 4 * (gammax cs * a) = a"
    and "alphay cs + 2 * betayz cs + 2 * betayx cs + 4 * (gammay cs * b) = b"
    and "alphaz cs + 2 * betazx cs + 2 * betazy cs + 4 * (gammaz cs * c) = c"
  using assms
  by (auto simp: coefs_3D_def Let_def bind_eq_Some_conv algebra_simps)

lemma coefs_XZ_defined:
  assumes "0 < a" "0 < c"
  shows "\<exists>cs. coefs_XZ a c = Some cs"
proof -
  have "max a c \<noteq> 0" using assms by (simp add: max_def)
  then show ?thesis by (simp add: coefs_XZ_def checked_div_def Let_def)
qed

lemma coefs_XZ_sum:
  assumes "coefs_XZ a c = Some cs"
  shows "alphax cs + 2 * betaxz cs = a"
    and "alphaz cs + 2 * betazx cs = c"
  using assms
  by (auto simp: coefs_XZ_def Let_def bind_eq_Some_conv algebra_simps)

lemma coefs_XZ_zero:
  assumes "coefs_XZ a c = Some cs"
  shows "alphay cs = 0 \<and> betaxy cs = 0 \<and> betayx cs = 0 \<and> betayz cs = 0 \<and> betazy cs = 0
     \<and> gammax cs = 0 \<and> gammay cs = 0 \<and> gammaz cs = 0"
  using assms
  by (auto simp: coefs_XZ_def Let_def bind_eq_Some_conv)

lemma Init_eq_Some:
  "InitializeStencilCoefficients d (dx, dy, dz) (vx, vy, vz) = Some (cx, cy, cz) \<longleftrightarrow>
     dx \<noteq> 0 \<and> dy \<noteq> 0 \<and> dz \<noteq> 0 \<and>
     (\<exists>c. (case d of DIM_3D \<Rightarrow> coefs_3D (1/dx) (1/dy) (1/dz) | DIM_XZ \<Rightarrow> coefs_XZ (1/dx) (1/dz)) = Some c
        \<and> cx = (resize 6 vx)[0 := 1/dx, 1 := alphax c, 2 := betaxy c, 3 := betaxz c, 4 := gammax c * (1/dx)]
        \<and> cy = (resize 6 vy)[0 := 1/dy, 1 := alphay c, 2 := betayz c, 3 := betayx c, 4 := gammay c * (1/dy)]
        \<and> cz = (resize 6 vz)[0 := 1/dz, 1 := alphaz c, 2 := betazx c, 3 := betazy c, 4 := gammaz c * (1/dz)])"
  by (auto simp: InitializeStencilCoefficients_def bind_eq_Some_conv checked_div_eq_Some)

lemma stored_nth:
  "(resize 6 v)[0 := a0, 1 := a1, 2 := a2, 3 := a3, 4 := a4] ! 0 = a0"
  "(resize 6 v)[0 := a0, 1 := a1, 2 := a2, 3 := a3, 4 := a4] ! 1 = a1"
  "(resize 6 v)[0 := a0, 1 := a1, 2 := a2, 3 := a3, 4 := a4] ! 2 = a2"
  "(resize 6 v)[0 := a0, 1 := a1, 2 := a2, 3 := a3, 4 := a4] ! 3 = a3"
  "(resize 6 v)[0 := a0, 1 := a1, 2 := a2, 3 := a3, 4 := a4] ! 4 = a4"
  "length ((resize 6 v)[0 := a0, 1 := a1, 2 := a2, 3 := a3, 4 := a4]) = 6"
  by (simp_all add: resize_length)


lemma Init_defined_3D:
  assumes "0 < dx" "0 < dy" "0 < dz"
  shows "\<exists>cx cy cz. InitializeStencilCoefficients DIM_3D (dx, dy, dz) (vx, vy, vz) = Some (cx, cy, cz)"
proof -
  have "0 < 1 / dx" "0 < 1 / dy" "0 < 1 / dz" using assms by simp_all
  from coefs_3D_defined[OF this] obtain cs where "coefs_3D (1 / dx) (1 / dy) (1 / dz) = Some cs" ..
  then show ?thesis using assms
    by (simp add: InitializeStencilCoefficients_def checked_div_def)
qed

lemma Init_defined_XZ:
  assumes "0 < dx" "dy \<noteq> 0" "0 < dz"
  shows "\<exists>cx cy cz. InitializeStencilCoefficients DIM_XZ (dx, dy, dz) (vx, vy, vz) = Some (cx, cy, cz)"
proof -
  have "0 < 1 / dx" "0 < 1 / dz" using assms by simp_all
  from coefs_XZ_defined[OF this] obtain cs where "coefs_XZ (1 / dx) (1 / dz) = Some cs" ..
  then show ?thesis using assms
    by (simp add: InitializeStencilCoefficients_def checked_div_def)
qed

lemma Init_weights_3D:
  assumes "InitializeStencilCoefficients DIM_3D (dx, dy, dz) (vx, vy, vz) = Some (cx, cy, cz)"
  shows "cx ! 0 = 1 / dx" "cy ! 0 = 1 / dy" "cz ! 0 = 1 / dz"
    and "cx ! 1 + 2 * cx ! 2 + 2 * cx ! 3 + 4 * cx ! 4 = 1 / dx"
    and "cy ! 1 + 2 * cy ! 2 + 2 * cy ! 3 + 4 * cy ! 4 = 1 / dy"
    and "cz ! 1 + 2 * cz ! 2 + 2 * cz ! 3 + 4 * cz ! 4 = 1 / dz"
proof -
  from assms obtain c where c: "coefs_3D (1/dx) (1/dy) (1/dz) = Some c"
    and cx: "cx = (resize 6 vx)[0 := 1/dx, 1 := alphax c, 2 := betaxy c, 3 := betaxz c, 4 := gammax c * (1/dx)]"
    and cy: "cy = (resize 6 vy)[0 := 1/dy, 1 := alphay c, 2 := betayz c, 3 := betayx c, 4 := gammay c * (1/dy)]"
    and cz: "cz = (resize 6 vz)[0 := 1/dz, 1 := alphaz c, 2 := betazx c, 3 := betazy c, 4 := gammaz c * (1/dz)]"
    by (auto simp: Init_eq_Some)
  show "cx ! 0 = 1 / dx" "cy ! 0 = 1 / dy" "cz ! 0 = 1 / dz"
    unfolding cx cy cz stored_nth by simp_all
  show "cx ! 1 + 2 * cx ! 2 + 2 * cx ! 3 + 4 * cx ! 4 = 1 / dx"
    unfolding cx stored_nth using coefs_3D_sum(1)[OF c] by simp
  show "cy ! 1 + 2 * cy ! 2 + 2 * cy ! 3 + 4 * cy ! 4 = 1 / dy"
    unfolding cy stored_nth using coefs_3D_sum(2)[OF c] by simp
  show "cz ! 1 + 2 * cz ! 2 + 2 * cz ! 3 + 4 * cz ! 4 = 1 / dz"
    unfolding cz stored_nth using coefs_3D_sum(3)[OF c] by simp
qed

lemma Init_weights_XZ:
  assumes "InitializeStencilCoefficients DIM_XZ (dx, dy, dz) (vx, vy, vz) = Some (cx, cy, cz)"
  shows "cx ! 0 = 1 / dx" "cz ! 0 = 1 / dz"
    and "cx ! 1 + 2 * cx ! 3 = 1 / dx"
    and "cz ! 1 + 2 * cz ! 2 = 1 / dz"
proof -
  from assms obtain c where c: "coefs_XZ (1/dx) (1/dz) = Some c"
    and cx: "cx = (resize 6 vx)[0 := 1/dx, 1 := alphax c, 2 := betaxy c, 3 := betaxz c, 4 := gammax c * (1/dx)]"
    and cz: "cz = (resize 6 vz)[0 := 1/dz, 1 := alphaz c, 2 := betazx c, 3 := betazy c, 4 := gammaz c * (1/dz)]"
    by (auto simp: Init_eq_Some)
  show "cx ! 0 = 1 / dx" "cz ! 0 = 1 / dz"
    unfolding cx cz stored_nth by simp_all
  show "cx ! 1 + 2 * cx ! 3 = 1 / dx"
    unfolding cx stored_nth using coefs_XZ_sum(1)[OF c] by simp
  show "cz ! 1 + 2 * cz ! 2 = 1 / dz"
    unfolding cz stored_nth using coefs_XZ_sum(2)[OF c] by simp
qed

lemma Init_zero_XZ:
  assumes "InitializeStencilCoefficients DIM_XZ (dx, dy, dz) (vx, vy, vz) = Some (cx, cy, cz)"
  shows "cx ! 2 = 0 \<and> cx ! 4 = 0 \<and> cz ! 3 = 0 \<and> cz ! 4 = 0
       \<and> cy ! 1 = 0 \<and> cy ! 2 = 0 \<and> cy ! 3 = 0 \<and> cy ! 4 = 0"
proof -
  from assms obtain c where c: "coefs_XZ (1/dx) (1/dz) = Some c"
    and cx: "cx = (resize 6 vx)[0 := 1/dx, 1 := alphax c, 2 := betaxy c, 3 := betaxz c, 4 := gammax c * (1/dx)]"
    and cy: "cy = (resize 6 vy)[0 := 1/dy, 1 := alphay c, 2 := betayz c, 3 := betayx c, 4 := gammay c * (1/dy)]"
    and cz: "cz = (resize 6 vz)[0 := 1/dz, 1 := alphaz c, 2 := betazx c, 3 := betazy c, 4 := gammaz c * (1/dz)]"
    by (auto simp: Init_eq_Some)
  show ?thesis unfolding cx cy cz stored_nth using coefs_XZ_zero[OF c] by simp
qed

text \<open>The operators on the linear fields, in terms of the stored weights.\<close>

lemma Upward_linear_3D:
  "UpwardDx DIM_3D (linear_i h) c n i j k = (c ! 1 + 2 * c ! 2 + 2 * c ! 3 + 4 * c ! 4) * h"
  "UpwardDy DIM_3D (linear_j h) c n i j k = (c ! 1 + 2 * c ! 2 + 2 * c ! 3 + 4 * c ! 4) * h"
  "UpwardDz DIM_3D (linear_k h) c n i j k = (c ! 1 + 2 * c ! 2 + 2 * c ! 3 + 4 * c ! 4) * h"
  by (simp_all add: UpwardDx_def UpwardDy_def UpwardDz_def linear_i_def linear_j_def
        linear_k_def algebra_simps)

lemma Upward_linear_XZ:
  "UpwardDx DIM_XZ (linear_i h) c n i j k = (c ! 1 + 2 * c ! 3) * h"
  "UpwardDz DIM_XZ (linear_j h) c n i j k = (c ! 1 + 2 * c ! 2) * h"
  by (simp_all add: UpwardDx_def UpwardDz_def linear_i_def linear_j_def algebra_simps)

lemma Downward_linear:
  "DownwardDx d (linear_i h) c n i j k = c ! 0 * h"
  "DownwardDy DIM_3D (linear_j h) c n i j k = c ! 0 * h"
  "DownwardDz DIM_3D (linear_k h) c n i j k = c ! 0 * h"
  "DownwardDz DIM_XZ (linear_j h) c n i j k = c ! 0 * h"
  by (simp_all add: DownwardDx_def DownwardDy_def DownwardDz_def linear_i_def linear_j_def
        linear_k_def algebra_simps)

text \<open>
  Claim C6. On a globally constant field each of the six operators \<^verbatim>\<open>UpwardDx\<close>,
  \<^verbatim>\<open>UpwardDy\<close>, \<^verbatim>\<open>UpwardDz\<close>, \<^verbatim>\<open>DownwardDx\<close>, \<^verbatim>\<open>DownwardDy\<close>, \<^verbatim>\<open>DownwardDz\<close> returns
  exactly 0, in both configurations, for every set of coefficients and at every grid
  index (so in particular at every interior point).
\<close>

theorem C6_constant_field:
  "UpwardDx d (constant_field v) cx nx i j k = 0
 \<and> UpwardDy d (constant_field v) cy ny i j k = 0
 \<and> UpwardDz d (constant_field v) cz nz i j k = 0
 \<and> DownwardDx d (constant_field v) cx nx i j k = 0
 \<and> DownwardDy d (constant_field v) cy ny i j k = 0
 \<and> DownwardDz d (constant_field v) cz nz i j k = 0"
  by (cases d)
     (simp_all add: UpwardDx_def UpwardDy_def UpwardDz_def DownwardDx_def DownwardDy_def
        DownwardDz_def constant_field_def)

subsection \<open>Binary64 rounding and the divisor of the builder\<close>

lemma pow2_pos [simp]: "0 < pow2 k"
  by (simp add: pow2_def)

lemma pow2_nonzero [simp]: "pow2 k \<noteq> 0"
  by (simp add: pow2_def)

lemma pow2_powr: "pow2 k = 2 powr (of_int k)"
proof (cases "0 \<le> k")
  case True
  then show ?thesis by (simp add: pow2_def powr_real_of_int)
next
  case False
  then show ?thesis by (simp add: pow2_def powr_real_of_int field_simps)
qed

lemma pow2_add: "pow2 (a + b) = pow2 a * pow2 b"
  by (simp add: pow2_powr powr_add)

lemma pow2_mono: "a \<le> b \<Longrightarrow> pow2 a \<le> pow2 b"
  by (simp add: pow2_powr)

lemma floor_log2:
  assumes "pow2 k \<le> x" "x < pow2 (k + 1)"
  shows "\<lfloor>log 2 x\<rfloor> = k"
proof -
  have "0 < x" using assms(1) pow2_pos[of k] by linarith
  then show ?thesis using assms by (simp add: floor_log_eq_powr_iff pow2_powr)
qed

lemma round_even_of_int [simp]: "round_even (of_int m) = m"
  by (simp add: round_even_def)














lemma fl64_zero [simp]: "fl64 0 = Some 0"
  by (simp add: fl64_def rne64_def)

lemma fl64_exact:
  assumes "pow2 k \<le> \<bar>x\<bar>" "\<bar>x\<bar> < pow2 (k + 1)" "- 1022 \<le> k" "k \<le> 1023"
    and "x = of_int m * pow2 (k - 52)"
  shows "fl64 x = Some x"
proof -
  have "0 < \<bar>x\<bar>" using assms(1) pow2_pos[of k] by linarith
  then have x: "x \<noteq> 0" by simp
  have "\<lfloor>log 2 \<bar>x\<bar>\<rfloor> = k" using assms(1,2) by (rule floor_log2)
  then have u: "ulp_exp x = k - 52" using assms(3) by (simp add: ulp_exp_def)
  have d: "x / pow2 (k - 52) = of_int m" using assms(5) by simp
  have "rne64 x = of_int (round_even (x / pow2 (k - 52))) * pow2 (k - 52)"
    using x by (simp only: rne64_def u if_False)
  also have "\<dots> = of_int m * pow2 (k - 52)" by (simp only: d round_even_of_int)
  finally have r: "rne64 x = x" using assms(5) by simp
  have "pow2 (k + 1) \<le> pow2 1024" using assms(4) by (intro pow2_mono) simp
  then have "\<bar>x\<bar> < 2 ^ 1024" using assms(2) by (simp add: pow2_def)
  then show ?thesis by (simp add: fl64_def r)
qed


lemma fl64_pow:
  assumes "n \<le> 1023"
  shows "fl64 (2 ^ n) = Some (2 ^ n)"
proof (rule fl64_exact[where k = "int n" and m = "2 ^ 52"])
  show "pow2 (int n) \<le> \<bar>2 ^ n\<bar>" by (simp add: pow2_def)
  show "\<bar>2 ^ n\<bar> < pow2 (int n + 1)" by (simp add: pow2_add) (simp add: pow2_def)
  show "- 1022 \<le> int n" by simp
  show "int n \<le> 1023" using assms by simp
  show "(2::real) ^ n = of_int (2 ^ 52) * pow2 (int n - 52)"
    using pow2_add[of "int n - 52" 52] by (simp add: pow2_def)
qed


lemma fl64_one [simp]: "fl64 1 = Some 1"
  using fl64_pow[of 0] by simp














text \<open>
  Claim C1 says that uniform cubic spacing gives \<open>beta = 0\<close>, \<open>gamma = 0\<close> and
  \<open>alpha = 1/dx\<close>. At \<open>dx = dy = dz = 1\<close> the builder stores, for each axis,
  \<open>alpha = 7/12\<close>, both cross betas \<open>1/12\<close> and \<open>gamma * inv_dx = 1/48\<close>.
\<close>

theorem C1_counterexample:
  "InitializeStencilCoefficients DIM_3D (1, 1, 1) ([], [], []) =
     Some ([1, 7/12, 1/12, 1/12, 1/48, 0],
           [1, 7/12, 1/12, 1/12, 1/48, 0],
           [1, 7/12, 1/12, 1/12, 1/48, 0])"
  by (simp add: InitializeStencilCoefficients_def coefs_3D_def ratios_3D_def r_fac_def
        checked_div_def resize_def Let_def eval_nat_numeral)

text \<open>
  Claim C1, amended. For uniform cubic spacing \<open>dx = dy = dz > 0\<close> the 3-D builder
  stores, for every axis, the inverse spacing \<open>1/dx\<close>, \<open>alpha = 7/(12 dx)\<close>, both
  cross betas \<open>1/(12 dx)\<close> (that is \<open>beta = 1/12\<close>) and \<open>gamma * inv_dx = 1/(48 dx)\<close>
  (that is \<open>gamma = 1/48\<close>): the upward derivative keeps its diagonal terms.
\<close>

theorem C1_cubic_spacing:
  assumes "0 < dx"
  shows "InitializeStencilCoefficients DIM_3D (dx, dx, dx) (vx, vy, vz) =
     Some ((resize 6 vx)[0 := 1 / dx, 1 := 7 / (12 * dx), 2 := 1 / (12 * dx),
                         3 := 1 / (12 * dx), 4 := 1 / (48 * dx)],
           (resize 6 vy)[0 := 1 / dx, 1 := 7 / (12 * dx), 2 := 1 / (12 * dx),
                         3 := 1 / (12 * dx), 4 := 1 / (48 * dx)],
           (resize 6 vz)[0 := 1 / dx, 1 := 7 / (12 * dx), 2 := 1 / (12 * dx),
                         3 := 1 / (12 * dx), 4 := 1 / (48 * dx)])"
  using assms
  by (simp add: InitializeStencilCoefficients_def coefs_3D_def ratios_3D_def r_fac_def
        checked_div_def Let_def)

text \<open>Claim C1, amended, at \<open>dx = 2\<close>.\<close>

theorem C1_cubic_spacing_witness:
  "InitializeStencilCoefficients DIM_3D (2, 2, 2) ([], [], []) =
     Some ([1/2, 7/24, 1/24, 1/24, 1/96, 0],
           [1/2, 7/24, 1/24, 1/24, 1/96, 0],
           [1/2, 7/24, 1/24, 1/24, 1/96, 0])"
  using C1_cubic_spacing[of 2 "[]" "[]" "[]"] by (simp add: resize_def eval_nat_numeral)


lemma Upward_constant:
  assumes "\<And>i j k. G i j k = v"
  shows "UpwardDx d G c n i j k = 0" "UpwardDy d G c n i j k = 0" "UpwardDz d G c n i j k = 0"
  by (cases d; simp add: UpwardDx_def UpwardDy_def UpwardDz_def assms)+

text \<open>
  Claim C5 says that the downward derivative followed by the upward derivative of the
  linear field \<open>F(i) = i * dx\<close> is 1. At unit spacings and the index \<open>(0, 0, 0)\<close> the
  composition is 0: the downward derivative of the linear field is the constant field 1.
\<close>

theorem C5_counterexample:
  "InitializeStencilCoefficients DIM_3D (1, 1, 1) ([], [], []) =
     Some ([1, 7/12, 1/12, 1/12, 1/48, 0],
           [1, 7/12, 1/12, 1/12, 1/48, 0],
           [1, 7/12, 1/12, 1/12, 1/48, 0])
   \<and> UpwardDx DIM_3D
        (DownwardDx DIM_3D (linear_i 1) [1, 7/12, 1/12, 1/12, 1/48, 0] 6)
        [1, 7/12, 1/12, 1/12, 1/48, 0] 6 0 0 0 = 0"
  by (simp add: InitializeStencilCoefficients_def coefs_3D_def ratios_3D_def r_fac_def
        checked_div_def resize_def Let_def eval_nat_numeral UpwardDx_def DownwardDx_def
        linear_i_def)

text \<open>
  Claim C5, amended. For strictly positive spacings the builder returns coefficients
  whose weights sum to the inverse spacing (\<open>alpha + 2 beta1 + 2 beta2 + 4 gamma/spacing
  = 1/spacing\<close> in 3-D, \<open>alpha + 2 beta = 1/spacing\<close> in the two-axis configuration), and
  with them each operator alone, upward or downward, returns exactly 1 at every index on
  the field that is linear with slope equal to the spacing along the operator's axis
  (in the two-axis configuration the axes are x and z, and z is the second index). The
  downward derivative followed by the upward derivative of that field returns exactly 0.
\<close>

theorem C5_linear_field:
  assumes "0 < dx" "0 < dy" "0 < dz"
  shows "(\<exists>cx cy cz.
            InitializeStencilCoefficients DIM_3D (dx, dy, dz) (vx, vy, vz) = Some (cx, cy, cz)
          \<and> cx ! 1 + 2 * cx ! 2 + 2 * cx ! 3 + 4 * cx ! 4 = 1 / dx
          \<and> cy ! 1 + 2 * cy ! 2 + 2 * cy ! 3 + 4 * cy ! 4 = 1 / dy
          \<and> cz ! 1 + 2 * cz ! 2 + 2 * cz ! 3 + 4 * cz ! 4 = 1 / dz
          \<and> UpwardDx DIM_3D (linear_i dx) cx n i j k = 1
          \<and> UpwardDy DIM_3D (linear_j dy) cy n i j k = 1
          \<and> UpwardDz DIM_3D (linear_k dz) cz n i j k = 1
          \<and> DownwardDx DIM_3D (linear_i dx) cx n i j k = 1
          \<and> DownwardDy DIM_3D (linear_j dy) cy n i j k = 1
          \<and> DownwardDz DIM_3D (linear_k dz) cz n i j k = 1
          \<and> UpwardDx DIM_3D (DownwardDx DIM_3D (linear_i dx) cx n) cx n i j k = 0
          \<and> UpwardDy DIM_3D (DownwardDy DIM_3D (linear_j dy) cy n) cy n i j k = 0
          \<and> UpwardDz DIM_3D (DownwardDz DIM_3D (linear_k dz) cz n) cz n i j k = 0)
       \<and> (\<exists>cx cy cz.
            InitializeStencilCoefficients DIM_XZ (dx, dy, dz) (vx, vy, vz) = Some (cx, cy, cz)
          \<and> cx ! 1 + 2 * cx ! 3 = 1 / dx
          \<and> cz ! 1 + 2 * cz ! 2 = 1 / dz
          \<and> UpwardDx DIM_XZ (linear_i dx) cx n i j k = 1
          \<and> UpwardDz DIM_XZ (linear_j dz) cz n i j k = 1
          \<and> DownwardDx DIM_XZ (linear_i dx) cx n i j k = 1
          \<and> DownwardDz DIM_XZ (linear_j dz) cz n i j k = 1
          \<and> UpwardDx DIM_XZ (DownwardDx DIM_XZ (linear_i dx) cx n) cx n i j k = 0
          \<and> UpwardDz DIM_XZ (DownwardDz DIM_XZ (linear_j dz) cz n) cz n i j k = 0)"
proof (rule conjI)
  obtain cx cy cz where
    I: "InitializeStencilCoefficients DIM_3D (dx, dy, dz) (vx, vy, vz) = Some (cx, cy, cz)"
    using Init_defined_3D[OF assms] by blast
  note W = Init_weights_3D[OF I]
  have up: "UpwardDx DIM_3D (linear_i dx) cx n i j k = 1"
           "UpwardDy DIM_3D (linear_j dy) cy n i j k = 1"
           "UpwardDz DIM_3D (linear_k dz) cz n i j k = 1"
    unfolding Upward_linear_3D W(4-6) using assms by simp_all
  have down: "\<And>i j k. DownwardDx DIM_3D (linear_i dx) cx n i j k = 1"
             "\<And>i j k. DownwardDy DIM_3D (linear_j dy) cy n i j k = 1"
             "\<And>i j k. DownwardDz DIM_3D (linear_k dz) cz n i j k = 1"
    unfolding Downward_linear W(1-3) using assms by simp_all
  have comp: "UpwardDx DIM_3D (DownwardDx DIM_3D (linear_i dx) cx n) cx n i j k = 0"
             "UpwardDy DIM_3D (DownwardDy DIM_3D (linear_j dy) cy n) cy n i j k = 0"
             "UpwardDz DIM_3D (DownwardDz DIM_3D (linear_k dz) cz n) cz n i j k = 0"
    by (rule Upward_constant, rule down)+
  show "\<exists>cx cy cz.
            InitializeStencilCoefficients DIM_3D (dx, dy, dz) (vx, vy, vz) = Some (cx, cy, cz)
          \<and> cx ! 1 + 2 * cx ! 2 + 2 * cx ! 3 + 4 * cx ! 4 = 1 / dx
          \<and> cy ! 1 + 2 * cy ! 2 + 2 * cy ! 3 + 4 * cy ! 4 = 1 / dy
          \<and> cz ! 1 + 2 * cz ! 2 + 2 * cz ! 3 + 4 * cz ! 4 = 1 / dz
          \<and> UpwardDx DIM_3D (linear_i dx) cx n i j k = 1
          \<and> UpwardDy DIM_3D (linear_j dy) cy n i j k = 1
          \<and> UpwardDz DIM_3D (linear_k dz) cz n i j k = 1
          \<and> DownwardDx DIM_3D (linear_i dx) cx n i j k = 1
          \<and> DownwardDy DIM_3D (linear_j dy) cy n i j k = 1
          \<and> DownwardDz DIM_3D (linear_k dz) cz n i j k = 1
          \<and> UpwardDx DIM_3D (DownwardDx DIM_3D (linear_i dx) cx n) cx n i j k = 0
          \<and> UpwardDy DIM_3D (DownwardDy DIM_3D (linear_j dy) cy n) cy n i j k = 0
          \<and> UpwardDz DIM_3D (DownwardDz DIM_3D (linear_k dz) cz n) cz n i j k = 0"
    using I W(4-6) up down comp by blast
next
  have "dy \<noteq> 0" using assms by simp
  then obtain cx cy cz where
    I: "InitializeStencilCoefficients DIM_XZ (dx, dy, dz) (vx, vy, vz) = Some (cx, cy, cz)"
    using Init_defined_XZ[of dx dy dz] assms by blast
  note W = Init_weights_XZ[OF I]
  have up: "UpwardDx DIM_XZ (linear_i dx) cx n i j k = 1"
           "UpwardDz DIM_XZ (linear_j dz) cz n i j k = 1"
    unfolding Upward_linear_XZ W(3-4) using assms by simp_all
  have down: "\<And>i j k. DownwardDx DIM_XZ (linear_i dx) cx n i j k = 1"
             "\<And>i j k. DownwardDz DIM_XZ (linear_j dz) cz n i j k = 1"
    unfolding Downward_linear W(1-2) using assms by simp_all
  have comp: "UpwardDx DIM_XZ (DownwardDx DIM_XZ (linear_i dx) cx n) cx n i j k = 0"
             "UpwardDz DIM_XZ (DownwardDz DIM_XZ (linear_j dz) cz n) cz n i j k = 0"
    by (rule Upward_constant, rule down)+
  show "\<exists>cx cy cz.
            InitializeStencilCoefficients DIM_XZ (dx, dy, dz) (vx, vy, vz) = Some (cx, cy, cz)
          \<and> cx ! 1 + 2 * cx ! 3 = 1 / dx
          \<and> cz ! 1 + 2 * cz ! 2 = 1 / dz
          \<and> UpwardDx DIM_XZ (linear_i dx) cx n i j k = 1
          \<and> UpwardDz DIM_XZ (linear_j dz) cz n i j k = 1
          \<and> DownwardDx DIM_XZ (linear_i dx) cx n i j k = 1
          \<and> DownwardDz DIM_XZ (linear_j dz) cz n i j k = 1
          \<and> UpwardDx DIM_XZ (DownwardDx DIM_XZ (linear_i dx) cx n) cx n i j k = 0
          \<and> UpwardDz DIM_XZ (DownwardDz DIM_XZ (linear_j dz) cz n) cz n i j k = 0"
    using I W(3-4) up down comp by blast
qed

text \<open>Claim C5, amended, at the spacings \<open>(1, 2, 4)\<close> and the index \<open>(3, 5, 7)\<close>.\<close>

theorem C5_linear_field_witness:
  "(\<exists>cx cy cz.
            InitializeStencilCoefficients DIM_3D (1, 2, 4) ([], [], []) = Some (cx, cy, cz)
          \<and> cx ! 1 + 2 * cx ! 2 + 2 * cx ! 3 + 4 * cx ! 4 = 1 / 1
          \<and> cy ! 1 + 2 * cy ! 2 + 2 * cy ! 3 + 4 * cy ! 4 = 1 / 2
          \<and> cz ! 1 + 2 * cz ! 2 + 2 * cz ! 3 + 4 * cz ! 4 = 1 / 4
          \<and> UpwardDx DIM_3D (linear_i 1) cx 6 3 5 7 = 1
          \<and> UpwardDy DIM_3D (linear_j 2) cy 6 3 5 7 = 1
          \<and> UpwardDz DIM_3D (linear_k 4) cz 6 3 5 7 = 1
          \<and> DownwardDx DIM_3D (linear_i 1) cx 6 3 5 7 = 1
          \<and> DownwardDy DIM_3D (linear_j 2) cy 6 3 5 7 = 1
          \<and> DownwardDz DIM_3D (linear_k 4) cz 6 3 5 7 = 1
          \<and> UpwardDx DIM_3D (DownwardDx DIM_3D (linear_i 1) cx 6) cx 6 3 5 7 = 0
          \<and> UpwardDy DIM_3D (DownwardDy DIM_3D (linear_j 2) cy 6) cy 6 3 5 7 = 0
          \<and> UpwardDz DIM_3D (DownwardDz DIM_3D (linear_k 4) cz 6) cz 6 3 5 7 = 0)
       \<and> (\<exists>cx cy cz.
            InitializeStencilCoefficients DIM_XZ (1, 2, 4) ([], [], []) = Some (cx, cy, cz)
          \<and> cx ! 1 + 2 * cx ! 3 = 1 / 1
          \<and> cz ! 1 + 2 * cz ! 2 = 1 / 4
          \<and> UpwardDx DIM_XZ (linear_i 1) cx 6 3 5 7 = 1
          \<and> UpwardDz DIM_XZ (linear_j 4) cz 6 3 5 7 = 1
          \<and> DownwardDx DIM_XZ (linear_i 1) cx 6 3 5 7 = 1
          \<and> DownwardDz DIM_XZ (linear_j 4) cz 6 3 5 7 = 1
          \<and> UpwardDx DIM_XZ (DownwardDx DIM_XZ (linear_i 1) cx 6) cx 6 3 5 7 = 0
          \<and> UpwardDz DIM_XZ (DownwardDz DIM_XZ (linear_j 4) cz 6) cz 6 3 5 7 = 0)"
proof -
  have h: "(0::real) < 1" "(0::real) < 2" "(0::real) < 4" by simp_all
  show ?thesis
    using C5_linear_field[OF h, of "[]" "[]" "[]" 6 3 5 7] .
qed

text \<open>
  Claim C7. In the two-axis configuration \<^verbatim>\<open>UpwardDy\<close> and \<^verbatim>\<open>DownwardDy\<close> return
  exactly 0 for every field, every coefficient set and every index; and whatever the
  builder returns there, the y terms of the other operators' coefficients (\<open>betaxy\<close>
  and \<open>gammax\<close> in the x vector, \<open>betazy\<close> and \<open>gammaz\<close> in the z vector) are 0, as
  are \<open>alphay\<close>, \<open>betayz\<close>, \<open>betayx\<close> and \<open>gammay\<close> in the y vector.
\<close>

theorem C7_absent_axis:
  "UpwardDy DIM_XZ F cy n i j k = 0
 \<and> DownwardDy DIM_XZ F cy n i j k = 0
 \<and> (InitializeStencilCoefficients DIM_XZ cell_size vecs = Some (sx, sy, sz) \<longrightarrow>
      sx ! 2 = 0 \<and> sx ! 4 = 0 \<and> sz ! 3 = 0 \<and> sz ! 4 = 0
    \<and> sy ! 1 = 0 \<and> sy ! 2 = 0 \<and> sy ! 3 = 0 \<and> sy ! 4 = 0)"
proof -
  obtain dx dy dz where c: "cell_size = (dx, dy, dz)" by (cases cell_size) auto
  obtain vx vy vz where v: "vecs = (vx, vy, vz)" by (cases vecs) auto
  show ?thesis
    unfolding c v using Init_zero_XZ[of dx dy dz vx vy vz sx sy sz]
    by (simp add: UpwardDy_def DownwardDy_def)
qed

text \<open>Claim C7 at the cell size \<open>(1, 1, 2)\<close>.\<close>

theorem C7_absent_axis_witness:
  "UpwardDy DIM_XZ (linear_j 1) [1, 0, 0, 0, 0, 0] 6 3 5 7 = 0
 \<and> DownwardDy DIM_XZ (linear_j 1) [1, 0, 0, 0, 0, 0] 6 3 5 7 = 0
 \<and> InitializeStencilCoefficients DIM_XZ (1, 1, 2) ([], [], []) =
      Some ([1, 15/16, 0, 1/32, 0, 0], [1, 0, 0, 0, 0, 0], [1/2, 3/8, 1/16, 0, 0, 0])
 \<and> [1, 15/16, 0, 1/32, 0, 0::real] ! 2 = 0 \<and> [1, 15/16, 0, 1/32, 0, 0::real] ! 4 = 0
 \<and> [1/2, 3/8, 1/16, 0, 0, 0::real] ! 3 = 0 \<and> [1/2, 3/8, 1/16, 0, 0, 0::real] ! 4 = 0
 \<and> [1, 0, 0, 0, 0, 0::real] ! 1 = 0 \<and> [1, 0, 0, 0, 0, 0::real] ! 2 = 0
 \<and> [1, 0, 0, 0, 0, 0::real] ! 3 = 0 \<and> [1, 0, 0, 0, 0, 0::real] ! 4 = 0"
proof -
  have I: "InitializeStencilCoefficients DIM_XZ (1, 1, 2) ([], [], []) =
      Some ([1, 15/16, 0, 1/32, 0, 0], [1, 0, 0, 0, 0, 0], [1/2, 3/8, 1/16, 0, 0, 0])"
    by (simp add: InitializeStencilCoefficients_def coefs_XZ_def checked_div_def resize_def
          Let_def eval_nat_numeral)
  show ?thesis
    using C7_absent_axis[of "linear_j 1" "[1, 0, 0, 0, 0, 0]" 6 3 5 7 "(1, 1, 2)" "([], [], [])"
            "[1, 15/16, 0, 1/32, 0, 0]" "[1, 0, 0, 0, 0, 0]" "[1/2, 3/8, 1/16, 0, 0, 0]"] I
    by blast
qed

section \<open>Properties of pair generation\<close>

lemmas PIdx_defs = PIdx_w_def PIdx_ux_def PIdx_uy_def PIdx_uz_def PIdx_Ex_def PIdx_Ey_def
  PIdx_Ez_def PIdx_Bx_def PIdx_By_def PIdx_Bz_def

lemma has_slotD:
  assumes "has_slot rz ptd i"
  shows "0 \<le> i" "nat i < length (m_aos ptd)" "10 \<le> length (m_rdata ptd)"
    and "\<And>c. c < length (m_rdata ptd) \<Longrightarrow> nat i < length (m_rdata ptd ! c)"
  using assms by (auto simp: has_slot_def PIdx_nattribs_def list_all_length split: if_splits)

lemma rd_slot:
  assumes "has_slot rz ptd i" "0 \<le> c" "c < 10"
  shows "rd (m_rdata ptd) c i = Some (m_rdata ptd ! nat c ! nat i)"
proof -
  have "nat c < length (m_rdata ptd)" using has_slotD(3)[OF assms(1)] assms(2,3) by linarith
  then show ?thesis using has_slotD(1,4)[OF assms(1)] assms(2) by (simp add: rd_def)
qed

lemma wr_in_range:
  assumes "0 \<le> c" "nat c < length a" "0 \<le> i" "nat i < length (a ! nat c)"
  shows "wr a c i v = Some (a[nat c := (a ! nat c)[nat i := v]])"
  using assms by (simp add: wr_def)

lemma four_writes:
  assumes "4 \<le> length a" "0 \<le> i" "\<And>c. c < length a \<Longrightarrow> nat i < length (a ! c)"
  shows "wr a PIdx_w i vw \<bind> (\<lambda>d. wr d PIdx_ux i vx \<bind> (\<lambda>d. wr d PIdx_uy i vy \<bind>
           (\<lambda>d. wr d PIdx_uz i vz \<bind> K))) = K (write_daughter a i vw vx vy vz)"
proof -
  have r: "nat i < length (a ! 0)" "nat i < length (a ! 1)" "nat i < length (a ! 2)"
          "nat i < length (a ! 3)"
    using assms(1) by (auto intro: assms(3))
  have ne: "a \<noteq> []" using assms(1) by auto
  show ?thesis
    using assms(1,2) r ne by (simp add: wr_def write_daughter_def PIdx_defs)
qed

lemma transform_step:
  assumes "me \<noteq> 0" "has_slot rz src i_src" "has_slot rz dst1 i_dst1" "has_slot rz dst2 i_dst2"
  shows "PairGenerationTransformFunc g me rng dst1 dst2 src i_src i_dst1 i_dst2 =
     Some (dst1\<lparr>m_rdata := write_daughter (m_rdata dst1) i_dst1
                    (e_w (fst (call_generate g me (m_rdata src) i_src rng)))
                    (e_px (fst (call_generate g me (m_rdata src) i_src rng)) * (1 / me))
                    (e_py (fst (call_generate g me (m_rdata src) i_src rng)) * (1 / me))
                    (e_pz (fst (call_generate g me (m_rdata src) i_src rng)) * (1 / me))\<rparr>,
           dst2\<lparr>m_rdata := write_daughter (m_rdata dst2) i_dst2
                    (p_w (fst (call_generate g me (m_rdata src) i_src rng)))
                    (p_px (fst (call_generate g me (m_rdata src) i_src rng)) * (1 / me))
                    (p_py (fst (call_generate g me (m_rdata src) i_src rng)) * (1 / me))
                    (p_pz (fst (call_generate g me (m_rdata src) i_src rng)) * (1 / me))\<rparr>,
           src\<lparr>m_aos := (m_aos src)[nat i_src := (m_aos src ! nat i_src)\<lparr>id_of := - 1\<rparr>]\<rparr>,
           snd (call_generate g me (m_rdata src) i_src rng))"
proof -
  note s = has_slotD[OF assms(2)]
  note d1 = has_slotD[OF assms(3)]
  note d2 = has_slotD[OF assms(4)]
  have reads:
    "rd (m_rdata src) PIdx_w i_src = Some (m_rdata src ! nat PIdx_w ! nat i_src)"
    "rd (m_rdata src) PIdx_ux i_src = Some (m_rdata src ! nat PIdx_ux ! nat i_src)"
    "rd (m_rdata src) PIdx_uy i_src = Some (m_rdata src ! nat PIdx_uy ! nat i_src)"
    "rd (m_rdata src) PIdx_uz i_src = Some (m_rdata src ! nat PIdx_uz ! nat i_src)"
    "rd (m_rdata src) PIdx_Ex i_src = Some (m_rdata src ! nat PIdx_Ex ! nat i_src)"
    "rd (m_rdata src) PIdx_Ey i_src = Some (m_rdata src ! nat PIdx_Ey ! nat i_src)"
    "rd (m_rdata src) PIdx_Ez i_src = Some (m_rdata src ! nat PIdx_Ez ! nat i_src)"
    "rd (m_rdata src) PIdx_Bx i_src = Some (m_rdata src ! nat PIdx_Bx ! nat i_src)"
    "rd (m_rdata src) PIdx_By i_src = Some (m_rdata src ! nat PIdx_By ! nat i_src)"
    "rd (m_rdata src) PIdx_Bz i_src = Some (m_rdata src ! nat PIdx_Bz ! nat i_src)"
    by (rule rd_slot[OF assms(2)]; simp add: PIdx_defs)+
  have w1: "\<And>K vw vx vy vz. wr (m_rdata dst1) PIdx_w i_dst1 vw \<bind> (\<lambda>d. wr d PIdx_ux i_dst1 vx \<bind> (\<lambda>d. wr d PIdx_uy i_dst1 vy \<bind>
           (\<lambda>d. wr d PIdx_uz i_dst1 vz \<bind> K))) = K (write_daughter (m_rdata dst1) i_dst1 vw vx vy vz)"
    using d1 by (intro four_writes) auto
  have w2: "\<And>K vw vx vy vz. wr (m_rdata dst2) PIdx_w i_dst2 vw \<bind> (\<lambda>d. wr d PIdx_ux i_dst2 vx \<bind> (\<lambda>d. wr d PIdx_uy i_dst2 vy \<bind>
           (\<lambda>d. wr d PIdx_uz i_dst2 vz \<bind> K))) = K (write_daughter (m_rdata dst2) i_dst2 vw vx vy vz)"
    using d2 by (intro four_writes) auto
  have sid: "set_id (m_aos src) i_src (- 1) =
       Some ((m_aos src)[nat i_src := (m_aos src ! nat i_src)\<lparr>id_of := - 1\<rparr>])"
    using s(1,2) by (simp add: set_id_def)
  show ?thesis
    unfolding PairGenerationTransformFunc_def
    using assms(1)
    by (simp add: checked_div_def reads Let_def w1 w2 sid call_generate_def split_beta)
qed


lemma nth_update_any:
  "xs[i := x] ! j = (if i = j \<and> i < length xs then x else xs ! j)"
  by (cases "i < length xs") (auto simp: nth_list_update list_update_beyond)

lemma write_daughter_length [simp]:
  "length (write_daughter a i vw vx vy vz) = length a"
  "length (write_daughter a i vw vx vy vz ! c) = length (a ! c)"
  by (simp_all add: write_daughter_def nth_update_any)

lemma write_daughter_other:
  "\<not> (c \<le> 3 \<and> j = nat i) \<Longrightarrow> write_daughter a i vw vx vy vz ! c ! j = a ! c ! j"
  by (auto simp: write_daughter_def PIdx_defs nth_update_any)

lemma write_daughter_same:
  assumes "4 \<le> length a" "\<And>c. c < length a \<Longrightarrow> nat i < length (a ! c)"
  shows "write_daughter a i vw vx vy vz ! 0 ! nat i = vw"
        "write_daughter a i vw vx vy vz ! 1 ! nat i = vx"
        "write_daughter a i vw vx vy vz ! 2 ! nat i = vy"
        "write_daughter a i vw vx vy vz ! 3 ! nat i = vz"
proof -
  have r: "nat i < length (a ! 0)" "nat i < length (a ! 1)" "nat i < length (a ! 2)"
          "nat i < length (a ! 3)"
    using assms(1) by (auto intro: assms(2))
  show "write_daughter a i vw vx vy vz ! 0 ! nat i = vw"
        "write_daughter a i vw vx vy vz ! 1 ! nat i = vx"
        "write_daughter a i vw vx vy vz ! 2 ! nat i = vy"
        "write_daughter a i vw vx vy vz ! 3 ! nat i = vz"
    using assms(1) r by (auto simp: write_daughter_def PIdx_defs nth_update_any)
qed

lemma has_slot_write_daughter:
  "has_slot rz (ptd\<lparr>m_rdata := write_daughter (m_rdata ptd) i vw vx vy vz\<rparr>) j = has_slot rz ptd j"
  by (simp add: has_slot_def list_all_length)

lemma has_slot_m_aos:
  "length aos = length (m_aos ptd) \<Longrightarrow> has_slot rz (ptd\<lparr>m_aos := aos\<rparr>) j = has_slot rz ptd j"
  by (simp add: has_slot_def)

lemma weight_write_daughter:
  assumes "has_slot rz ptd i"
  shows "weight_at (ptd\<lparr>m_rdata := write_daughter (m_rdata ptd) i vw vx vy vz\<rparr>) i = vw"
    and "momentum_at (ptd\<lparr>m_rdata := write_daughter (m_rdata ptd) i vw vx vy vz\<rparr>) i = (vx, vy, vz)"
    and "0 \<le> j \<Longrightarrow> j \<noteq> i \<Longrightarrow>
         weight_at (ptd\<lparr>m_rdata := write_daughter (m_rdata ptd) i vw vx vy vz\<rparr>) j = weight_at ptd j"
proof -
  note s = has_slotD[OF assms]
  have four: "4 \<le> length (m_rdata ptd)" using s(3) by simp
  note same = write_daughter_same[OF four s(4), of vw vx vy vz]
  show "weight_at (ptd\<lparr>m_rdata := write_daughter (m_rdata ptd) i vw vx vy vz\<rparr>) i = vw"
    using same(1) by (simp add: weight_at_def PIdx_defs)
  show "momentum_at (ptd\<lparr>m_rdata := write_daughter (m_rdata ptd) i vw vx vy vz\<rparr>) i = (vx, vy, vz)"
    using same(2-4) by (simp add: momentum_at_def PIdx_defs)
  show "weight_at (ptd\<lparr>m_rdata := write_daughter (m_rdata ptd) i vw vx vy vz\<rparr>) j = weight_at ptd j"
    if "0 \<le> j" "j \<noteq> i"
  proof -
    have "nat j \<noteq> nat i" using that s(1) by simp
    then show ?thesis by (simp add: weight_at_def write_daughter_other)
  qed
qed

text \<open>
  Claim C3. Where the optical depth of particle \<open>i\<close> can be read, the filter returns
  true exactly when it is strictly less than zero: it returns false at zero and at every
  positive value. The functor receives the tile by constant reference and returns only
  the truth value, so the particle data is left as it is.
\<close>

theorem C3_filter:
  assumes "rd (m_runtime_rdata ptd) m_opt_depth_runtime_comp i = Some opt_depth"
  shows "PairGenerationFilterFunc m_opt_depth_runtime_comp ptd i = Some (opt_depth < 0)
       \<and> (PairGenerationFilterFunc m_opt_depth_runtime_comp ptd i = Some True \<longleftrightarrow> opt_depth < 0)
       \<and> (opt_depth = 0 \<longrightarrow> PairGenerationFilterFunc m_opt_depth_runtime_comp ptd i = Some False)
       \<and> (0 < opt_depth \<longrightarrow> PairGenerationFilterFunc m_opt_depth_runtime_comp ptd i = Some False)"
  using assms by (simp add: PairGenerationFilterFunc_def)

text \<open>Claim C3 at optical depths \<open>-2\<close>, \<open>0\<close> and \<open>5\<close>.\<close>

theorem C3_filter_witness:
  "rd (m_runtime_rdata photon_tile) 0 1 = Some (- 2)
 \<and> PairGenerationFilterFunc 0 photon_tile 1 = Some True
 \<and> rd [[0, 5]] 0 0 = Some 0
 \<and> PairGenerationFilterFunc 0 (photon_tile\<lparr>m_runtime_rdata := [[0, 5]]\<rparr>) 0 = Some False
 \<and> rd [[0, 5]] 0 1 = Some 5
 \<and> PairGenerationFilterFunc 0 (photon_tile\<lparr>m_runtime_rdata := [[0, 5]]\<rparr>) 1 = Some False"
proof -
  have r: "rd (m_runtime_rdata photon_tile) 0 1 = Some (- 2)"
          "rd (m_runtime_rdata (photon_tile\<lparr>m_runtime_rdata := [[0, 5]]\<rparr>)) 0 0 = Some 0"
          "rd (m_runtime_rdata (photon_tile\<lparr>m_runtime_rdata := [[0, 5]]\<rparr>)) 0 1 = Some 5"
    by (simp_all add: rd_def photon_tile_def)
  show ?thesis
    using C3_filter[OF r(1)] C3_filter[OF r(2)] C3_filter[OF r(3)] r by simp
qed

text \<open>
  Claim C10. On allocated slots the transform returns, and the only values that may
  differ afterwards are the weight and the three momentum components (attributes 0 to
  3) of slot \<open>i_dst1\<close> of the first destination and of slot \<open>i_dst2\<close> of the
  second, and the id of source particle \<open>i_src\<close>. The source's attribute arrays
  (weight, momentum, gathered fields), its runtime attributes, and the position and cpu
  of the source particle are unchanged; the destinations' particle structs (positions)
  and attributes 4 and above (gathered fields) are unchanged; every other particle of
  the three tiles is unchanged.
\<close>

theorem C10_transform_frame:
  assumes "me \<noteq> 0" "has_slot rz src i_src" "has_slot rz dst1 i_dst1" "has_slot rz dst2 i_dst2"
  shows "\<exists>dst1' dst2' src' rng'.
           PairGenerationTransformFunc g me rng dst1 dst2 src i_src i_dst1 i_dst2
             = Some (dst1', dst2', src', rng')
         \<and> m_rdata src' = m_rdata src
         \<and> m_runtime_rdata src' = m_runtime_rdata src
         \<and> length (m_aos src') = length (m_aos src)
         \<and> pos (m_aos src' ! nat i_src) = pos (m_aos src ! nat i_src)
         \<and> cpu (m_aos src' ! nat i_src) = cpu (m_aos src ! nat i_src)
         \<and> id_of (m_aos src' ! nat i_src) = - 1
         \<and> (\<forall>j. j \<noteq> nat i_src \<longrightarrow> m_aos src' ! j = m_aos src ! j)
         \<and> m_aos dst1' = m_aos dst1
         \<and> m_runtime_rdata dst1' = m_runtime_rdata dst1
         \<and> length (m_rdata dst1') = length (m_rdata dst1)
         \<and> (\<forall>c. length (m_rdata dst1' ! c) = length (m_rdata dst1 ! c))
         \<and> (\<forall>c j. \<not> (c \<le> 3 \<and> j = nat i_dst1) \<longrightarrow> m_rdata dst1' ! c ! j = m_rdata dst1 ! c ! j)
         \<and> m_aos dst2' = m_aos dst2
         \<and> m_runtime_rdata dst2' = m_runtime_rdata dst2
         \<and> length (m_rdata dst2') = length (m_rdata dst2)
         \<and> (\<forall>c. length (m_rdata dst2' ! c) = length (m_rdata dst2 ! c))
         \<and> (\<forall>c j. \<not> (c \<le> 3 \<and> j = nat i_dst2) \<longrightarrow> m_rdata dst2' ! c ! j = m_rdata dst2 ! c ! j)"
proof -
  have "nat i_src < length (m_aos src)" by (rule has_slotD(2)[OF assms(2)])
  then show ?thesis
    unfolding transform_step[OF assms]
    by (simp add: write_daughter_other)
qed


lemma generated_conserves:
  assumes "\<And>r p E B w. e_w (fst (g r p E B w)) + p_w (fst (g r p E B w)) = w"
  shows "sum_list (map e_w (generated g me a is rng)) + sum_list (map p_w (generated g me a is rng))
           = (\<Sum>i\<leftarrow>is. a ! nat PIdx_w ! nat i)"
proof (induction "is" arbitrary: rng)
  case Nil
  then show ?case by simp
next
  case (Cons i "is")
  have "e_w (fst (call_generate g me a i rng)) + p_w (fst (call_generate g me a i rng))
          = a ! nat PIdx_w ! nat i"
    unfolding call_generate_def by (rule assms)
  then show ?case using Cons.IH[of "snd (call_generate g me a i rng)"] by simp
qed

lemma transform_each_run:
  assumes me: "me \<noteq> 0"
  shows "\<lbrakk> \<forall>t\<in>set ts. has_slot rz src (fst t) \<and> has_slot rz dst1 (fst (snd t))
                     \<and> has_slot rz dst2 (snd (snd t));
           distinct (map (\<lambda>t. fst (snd t)) ts); distinct (map (\<lambda>t. snd (snd t)) ts) \<rbrakk> \<Longrightarrow>
    \<exists>dst1' dst2' src' rng'.
        transform_each g me ts (dst1, dst2, src, rng) = Some (dst1', dst2', src', rng')
      \<and> m_rdata src' = m_rdata src
      \<and> m_runtime_rdata src' = m_runtime_rdata src
      \<and> length (m_aos src') = length (m_aos src)
      \<and> (\<forall>t\<in>set ts. id_of (m_aos src' ! nat (fst t)) = - 1)
      \<and> (\<forall>j. 0 \<le> j \<and> j \<notin> fst ` set ts \<longrightarrow> m_aos src' ! nat j = m_aos src ! nat j)
      \<and> map (\<lambda>t. weight_at dst1' (fst (snd t))) ts
          = map e_w (generated g me (m_rdata src) (map fst ts) rng)
      \<and> map (\<lambda>t. weight_at dst2' (snd (snd t))) ts
          = map p_w (generated g me (m_rdata src) (map fst ts) rng)
      \<and> m_aos dst1' = m_aos dst1 \<and> m_aos dst2' = m_aos dst2
      \<and> (\<forall>c j. 0 \<le> j \<and> j \<notin> (\<lambda>t. fst (snd t)) ` set ts \<longrightarrow>
             m_rdata dst1' ! c ! nat j = m_rdata dst1 ! c ! nat j)
      \<and> (\<forall>c j. 0 \<le> j \<and> j \<notin> (\<lambda>t. snd (snd t)) ` set ts \<longrightarrow>
             m_rdata dst2' ! c ! nat j = m_rdata dst2 ! c ! nat j)"
proof (induction ts arbitrary: dst1 dst2 src rng)
  case Nil
  then show ?case by simp
next
  case (Cons t ts)
  obtain i_src i_dst1 i_dst2 where t: "t = (i_src, i_dst1, i_dst2)" by (cases t) auto
  have slots: "has_slot rz src i_src" "has_slot rz dst1 i_dst1" "has_slot rz dst2 i_dst2"
    using Cons.prems(1) by (simp_all add: t)
  note ps = has_slotD[OF slots(1)]
  note p1 = has_slotD[OF slots(2)]
  note p2 = has_slotD[OF slots(3)]
  define out where "out = fst (call_generate g me (m_rdata src) i_src rng)"
  define r1 where "r1 = snd (call_generate g me (m_rdata src) i_src rng)"
  define d1 where "d1 = dst1\<lparr>m_rdata := write_daughter (m_rdata dst1) i_dst1 (e_w out)
       (e_px out * (1 / me)) (e_py out * (1 / me)) (e_pz out * (1 / me))\<rparr>"
  define d2 where "d2 = dst2\<lparr>m_rdata := write_daughter (m_rdata dst2) i_dst2 (p_w out)
       (p_px out * (1 / me)) (p_py out * (1 / me)) (p_pz out * (1 / me))\<rparr>"
  define s1 where "s1 = src\<lparr>m_aos := (m_aos src)[nat i_src := (m_aos src ! nat i_src)\<lparr>id_of := - 1\<rparr>]\<rparr>"
  have step: "PairGenerationTransformFunc g me rng dst1 dst2 src i_src i_dst1 i_dst2
                = Some (d1, d2, s1, r1)"
    unfolding d1_def d2_def s1_def r1_def out_def by (rule transform_step[OF me slots])
  have pre: "\<forall>t\<in>set ts. has_slot rz s1 (fst t) \<and> has_slot rz d1 (fst (snd t))
                     \<and> has_slot rz d2 (snd (snd t))"
    using Cons.prems(1)
    by (simp add: d1_def d2_def s1_def has_slot_write_daughter has_slot_m_aos)
  have dis: "distinct (map (\<lambda>t. fst (snd t)) ts)" "distinct (map (\<lambda>t. snd (snd t)) ts)"
    and fresh: "i_dst1 \<notin> (\<lambda>t. fst (snd t)) ` set ts" "i_dst2 \<notin> (\<lambda>t. snd (snd t)) ` set ts"
    using Cons.prems(2,3) by (simp_all add: t)
  from Cons.IH[OF pre dis, of r1] obtain dst1' dst2' src' rng' where
        run: "transform_each g me ts (d1, d2, s1, r1) = Some (dst1', dst2', src', rng')"
    and rdata: "m_rdata src' = m_rdata s1"
    and runtime: "m_runtime_rdata src' = m_runtime_rdata s1"
    and len: "length (m_aos src') = length (m_aos s1)"
    and ids: "\<forall>t\<in>set ts. id_of (m_aos src' ! nat (fst t)) = - 1"
    and aos: "\<forall>j. 0 \<le> j \<and> j \<notin> fst ` set ts \<longrightarrow> m_aos src' ! nat j = m_aos s1 ! nat j"
    and w1: "map (\<lambda>t. weight_at dst1' (fst (snd t))) ts
               = map e_w (generated g me (m_rdata s1) (map fst ts) r1)"
    and w2: "map (\<lambda>t. weight_at dst2' (snd (snd t))) ts
               = map p_w (generated g me (m_rdata s1) (map fst ts) r1)"
    and a1: "m_aos dst1' = m_aos d1" and a2: "m_aos dst2' = m_aos d2"
    and f1: "\<forall>c j. 0 \<le> j \<and> j \<notin> (\<lambda>t. fst (snd t)) ` set ts \<longrightarrow>
                m_rdata dst1' ! c ! nat j = m_rdata d1 ! c ! nat j"
    and f2: "\<forall>c j. 0 \<le> j \<and> j \<notin> (\<lambda>t. snd (snd t)) ` set ts \<longrightarrow>
                m_rdata dst2' ! c ! nat j = m_rdata d2 ! c ! nat j"
    by blast
  have s1_rdata: "m_rdata s1 = m_rdata src" "m_runtime_rdata s1 = m_runtime_rdata src"
       "length (m_aos s1) = length (m_aos src)"
    by (simp_all add: s1_def)
  have total: "transform_each g me (t # ts) (dst1, dst2, src, rng)
                 = Some (dst1', dst2', src', rng')"
    by (simp add: t step run)
  have head_id: "id_of (m_aos src' ! nat i_src) = - 1"
  proof (cases "i_src \<in> fst ` set ts")
    case True
    then show ?thesis using ids by auto
  next
    case False
    then have "m_aos src' ! nat i_src = m_aos s1 ! nat i_src" using aos ps(1) by blast
    then show ?thesis using ps(2) by (simp add: s1_def)
  qed
  have all_ids: "\<forall>u\<in>set (t # ts). id_of (m_aos src' ! nat (fst u)) = - 1"
    using head_id ids by (simp add: t)
  have others: "\<forall>j. 0 \<le> j \<and> j \<notin> fst ` set (t # ts) \<longrightarrow> m_aos src' ! nat j = m_aos src ! nat j"
  proof (intro allI impI)
    fix j assume j: "0 \<le> j \<and> j \<notin> fst ` set (t # ts)"
    then have "j \<noteq> i_src" "j \<notin> fst ` set ts" by (auto simp: t)
    then have "m_aos src' ! nat j = m_aos s1 ! nat j" "nat j \<noteq> nat i_src"
      using aos j ps(1) by auto
    then show "m_aos src' ! nat j = m_aos src ! nat j" by (simp add: s1_def)
  qed
  have head_w1: "weight_at dst1' i_dst1 = e_w out"
  proof -
    have "m_rdata dst1' ! nat PIdx_w ! nat i_dst1 = m_rdata d1 ! nat PIdx_w ! nat i_dst1"
      using f1 fresh(1) p1(1) by blast
    then have "weight_at dst1' i_dst1 = weight_at d1 i_dst1" by (simp add: weight_at_def)
    then show ?thesis unfolding d1_def using weight_write_daughter(1)[OF slots(2)] by simp
  qed
  have head_w2: "weight_at dst2' i_dst2 = p_w out"
  proof -
    have "m_rdata dst2' ! nat PIdx_w ! nat i_dst2 = m_rdata d2 ! nat PIdx_w ! nat i_dst2"
      using f2 fresh(2) p2(1) by blast
    then have "weight_at dst2' i_dst2 = weight_at d2 i_dst2" by (simp add: weight_at_def)
    then show ?thesis unfolding d2_def using weight_write_daughter(1)[OF slots(3)] by simp
  qed
  have map1: "map (\<lambda>t. weight_at dst1' (fst (snd t))) (t # ts)
               = map e_w (generated g me (m_rdata src) (map fst (t # ts)) rng)"
    using head_w1 w1 by (simp add: t s1_rdata out_def r1_def)
  have map2: "map (\<lambda>t. weight_at dst2' (snd (snd t))) (t # ts)
               = map p_w (generated g me (m_rdata src) (map fst (t # ts)) rng)"
    using head_w2 w2 by (simp add: t s1_rdata out_def r1_def)
  have frame1: "\<forall>c j. 0 \<le> j \<and> j \<notin> (\<lambda>t. fst (snd t)) ` set (t # ts) \<longrightarrow>
                  m_rdata dst1' ! c ! nat j = m_rdata dst1 ! c ! nat j"
  proof (intro allI impI)
    fix c j assume j: "0 \<le> j \<and> j \<notin> (\<lambda>t. fst (snd t)) ` set (t # ts)"
    then have "j \<noteq> i_dst1" "j \<notin> (\<lambda>t. fst (snd t)) ` set ts" by (auto simp: t)
    then have "m_rdata dst1' ! c ! nat j = m_rdata d1 ! c ! nat j" "nat j \<noteq> nat i_dst1"
      using f1 j p1(1) by auto
    then show "m_rdata dst1' ! c ! nat j = m_rdata dst1 ! c ! nat j"
      by (simp add: d1_def write_daughter_other)
  qed
  have frame2: "\<forall>c j. 0 \<le> j \<and> j \<notin> (\<lambda>t. snd (snd t)) ` set (t # ts) \<longrightarrow>
                  m_rdata dst2' ! c ! nat j = m_rdata dst2 ! c ! nat j"
  proof (intro allI impI)
    fix c j assume j: "0 \<le> j \<and> j \<notin> (\<lambda>t. snd (snd t)) ` set (t # ts)"
    then have "j \<noteq> i_dst2" "j \<notin> (\<lambda>t. snd (snd t)) ` set ts" by (auto simp: t)
    then have "m_rdata dst2' ! c ! nat j = m_rdata d2 ! c ! nat j" "nat j \<noteq> nat i_dst2"
      using f2 j p2(1) by auto
    then show "m_rdata dst2' ! c ! nat j = m_rdata dst2 ! c ! nat j"
      by (simp add: d2_def write_daughter_other)
  qed
  have keep: "m_rdata src' = m_rdata src" "m_runtime_rdata src' = m_runtime_rdata src"
       "length (m_aos src') = length (m_aos src)"
       "m_aos dst1' = m_aos dst1" "m_aos dst2' = m_aos dst2"
    using rdata runtime len a1 a2 s1_rdata by (simp_all add: d1_def d2_def)
  show ?case
    using total keep all_ids others map1 map2 frame1 frame2 by blast
qed


lemma has_slot_photon_tile:
  "has_slot False photon_tile 0" "has_slot False photon_tile 1"
  by (simp_all add: has_slot_def photon_tile_def PIdx_nattribs_def)

lemma has_slot_product_tile:
  "0 \<le> i \<Longrightarrow> nat i < n \<Longrightarrow> has_slot False (product_tile n) i"
  by (simp add: has_slot_def product_tile_def PIdx_nattribs_def list_all_iff)

lemma flagged_photon_tile:
  "PairGenerationFilterFunc 0 photon_tile 0 = Some True"
  "PairGenerationFilterFunc 0 photon_tile 1 = Some True"
  by (simp_all add: PairGenerationFilterFunc_def rd_def photon_tile_def)

text \<open>
  Claim C2. \<open>N\<close> photons flagged by the filter are processed once each, call \<open>k\<close>
  with its own allocated slot in each destination tile, the slots of one tile being
  distinct. Then all calls return; in each destination exactly the \<open>N\<close> listed slots
  are written (they are \<open>N\<close> different slots, each holds the weight that the
  collaborator produced at its own call, and every other slot and the particle structs
  are unchanged); if the collaborator's two weights always sum to the weight it is
  given, the destination weights sum to the sum of the \<open>N\<close> source weights; and the
  id of every source photon is \<open>-1\<close>.
\<close>

theorem C2_pair_generation_run:
  assumes "me \<noteq> 0"
    and "\<forall>t\<in>set ts. PairGenerationFilterFunc m_opt_depth_runtime_comp src (fst t) = Some True"
    and "\<forall>t\<in>set ts. has_slot rz src (fst t) \<and> has_slot rz dst1 (fst (snd t))
                     \<and> has_slot rz dst2 (snd (snd t))"
    and "distinct (map fst ts)"
    and "distinct (map (\<lambda>t. fst (snd t)) ts)"
    and "distinct (map (\<lambda>t. snd (snd t)) ts)"
  shows "\<exists>dst1' dst2' src' rng'.
        transform_each g me ts (dst1, dst2, src, rng) = Some (dst1', dst2', src', rng')
      \<and> card ((\<lambda>t. fst (snd t)) ` set ts) = length ts
      \<and> card ((\<lambda>t. snd (snd t)) ` set ts) = length ts
      \<and> map (\<lambda>t. weight_at dst1' (fst (snd t))) ts
          = map e_w (generated g me (m_rdata src) (map fst ts) rng)
      \<and> map (\<lambda>t. weight_at dst2' (snd (snd t))) ts
          = map p_w (generated g me (m_rdata src) (map fst ts) rng)
      \<and> m_aos dst1' = m_aos dst1 \<and> m_aos dst2' = m_aos dst2
      \<and> (\<forall>c j. 0 \<le> j \<and> j \<notin> (\<lambda>t. fst (snd t)) ` set ts \<longrightarrow>
             m_rdata dst1' ! c ! nat j = m_rdata dst1 ! c ! nat j)
      \<and> (\<forall>c j. 0 \<le> j \<and> j \<notin> (\<lambda>t. snd (snd t)) ` set ts \<longrightarrow>
             m_rdata dst2' ! c ! nat j = m_rdata dst2 ! c ! nat j)
      \<and> ((\<forall>r p E B w. e_w (fst (g r p E B w)) + p_w (fst (g r p E B w)) = w) \<longrightarrow>
           (\<Sum>t\<leftarrow>ts. weight_at dst1' (fst (snd t))) + (\<Sum>t\<leftarrow>ts. weight_at dst2' (snd (snd t)))
             = (\<Sum>t\<leftarrow>ts. weight_at src (fst t)))
      \<and> (\<forall>t\<in>set ts. id_of (m_aos src' ! nat (fst t)) = - 1)"
proof -
  from transform_each_run[OF assms(1,3,5,6), of g rng] obtain dst1' dst2' src' rng' where
        run: "transform_each g me ts (dst1, dst2, src, rng) = Some (dst1', dst2', src', rng')"
    and ids: "\<forall>t\<in>set ts. id_of (m_aos src' ! nat (fst t)) = - 1"
    and w1: "map (\<lambda>t. weight_at dst1' (fst (snd t))) ts
               = map e_w (generated g me (m_rdata src) (map fst ts) rng)"
    and w2: "map (\<lambda>t. weight_at dst2' (snd (snd t))) ts
               = map p_w (generated g me (m_rdata src) (map fst ts) rng)"
    and a: "m_aos dst1' = m_aos dst1" "m_aos dst2' = m_aos dst2"
    and f1: "\<forall>c j. 0 \<le> j \<and> j \<notin> (\<lambda>t. fst (snd t)) ` set ts \<longrightarrow>
                m_rdata dst1' ! c ! nat j = m_rdata dst1 ! c ! nat j"
    and f2: "\<forall>c j. 0 \<le> j \<and> j \<notin> (\<lambda>t. snd (snd t)) ` set ts \<longrightarrow>
                m_rdata dst2' ! c ! nat j = m_rdata dst2 ! c ! nat j"
    by blast
  have c1: "card ((\<lambda>t. fst (snd t)) ` set ts) = length ts"
    using distinct_card[OF assms(5)] by simp
  have c2: "card ((\<lambda>t. snd (snd t)) ` set ts) = length ts"
    using distinct_card[OF assms(6)] by simp
  have sums: "(\<Sum>t\<leftarrow>ts. weight_at dst1' (fst (snd t))) + (\<Sum>t\<leftarrow>ts. weight_at dst2' (snd (snd t)))
             = (\<Sum>t\<leftarrow>ts. weight_at src (fst t))"
    if cons: "\<forall>r p E B w. e_w (fst (g r p E B w)) + p_w (fst (g r p E B w)) = w"
  proof -
    have "sum_list (map e_w (generated g me (m_rdata src) (map fst ts) rng))
            + sum_list (map p_w (generated g me (m_rdata src) (map fst ts) rng))
          = (\<Sum>i\<leftarrow>map fst ts. m_rdata src ! nat PIdx_w ! nat i)"
      by (rule generated_conserves) (simp add: cons)
    also have "\<dots> = (\<Sum>t\<leftarrow>ts. weight_at src (fst t))"
      by (simp add: weight_at_def o_def)
    finally show ?thesis unfolding w1[symmetric] w2[symmetric] .
  qed
  show ?thesis
    using run c1 c2 w1 w2 a f1 f2 sums ids by blast
qed

text \<open>
  Claim C2 on the two photons of the photon tile, with the weight-splitting collaborator
  and destination slots taken in different orders.
\<close>

theorem C2_pair_generation_run_witness:
  "\<exists>dst1' dst2' src'.
        transform_each weight_split_double 2 [(0, 1, 0), (1, 0, 1)]
           (product_tile 2, product_tile 2, photon_tile, ()) = Some (dst1', dst2', src', ())
      \<and> weight_at dst1' 1 + weight_at dst1' 0 + (weight_at dst2' 0 + weight_at dst2' 1)
           = weight_at photon_tile 0 + weight_at photon_tile 1
      \<and> id_of (m_aos src' ! 0) = - 1 \<and> id_of (m_aos src' ! 1) = - 1"
proof -
  have h1: "(2::real) \<noteq> 0" by simp
  have h2: "\<forall>t\<in>set [(0, 1, 0), (1, 0, 1)].
              PairGenerationFilterFunc 0 photon_tile (fst t) = Some True"
    by (simp add: flagged_photon_tile)
  have h3: "\<forall>t\<in>set [(0, 1, 0), (1, 0, 1)]. has_slot False photon_tile (fst t)
              \<and> has_slot False (product_tile 2) (fst (snd t))
              \<and> has_slot False (product_tile 2) (snd (snd t))"
    by (simp add: has_slot_photon_tile has_slot_product_tile)
  have h4: "distinct (map fst [(0::int, 1::int, 0::int), (1, 0, 1)])"
           "distinct (map (\<lambda>t. fst (snd t)) [(0::int, 1::int, 0::int), (1, 0, 1)])"
           "distinct (map (\<lambda>t. snd (snd t)) [(0::int, 1::int, 0::int), (1, 0, 1)])"
    by simp_all
  have h5: "\<forall>r p E B w. e_w (fst (weight_split_double r p E B w))
                        + p_w (fst (weight_split_double r p E B w)) = w"
    by (simp add: weight_split_double_def split_beta)
  from C2_pair_generation_run[OF h1 h2 h3 h4, of weight_split_double "()"] h5
  show ?thesis by (simp add: nat_eq_iff) blast
qed

text \<open>
  Claim C8. A photon flagged by the filter has weight 1 and stored momentum
  \<open>(ux, uy, uz)\<close>; the collaborator, called with that momentum times the electron
  mass, returns half of what it was given for both daughters, with weight 1 each. Then
  the transform returns, each destination slot holds weight 1 and momentum
  \<open>(ux/2, uy/2, uz/2)\<close>, the destination tiles keep their size (one particle each
  when one slot each was allocated), and the id of the photon is \<open>-1\<close>, negative.
\<close>

theorem C8_one_photon:
  assumes "me \<noteq> 0"
    and "has_slot rz src i_src" "has_slot rz dst1 i_dst1" "has_slot rz dst2 i_dst2"
    and "PairGenerationFilterFunc m_opt_depth_runtime_comp src i_src = Some True"
    and "weight_at src i_src = 1"
    and "momentum_at src i_src = (ux, uy, uz)"
    and "fst (g rng (ux * me, uy * me, uz * me)
               (m_rdata src ! nat PIdx_Ex ! nat i_src, m_rdata src ! nat PIdx_Ey ! nat i_src,
                m_rdata src ! nat PIdx_Ez ! nat i_src)
               (m_rdata src ! nat PIdx_Bx ! nat i_src, m_rdata src ! nat PIdx_By ! nat i_src,
                m_rdata src ! nat PIdx_Bz ! nat i_src) 1)
          = \<lparr> e_px = ux * me / 2, e_py = uy * me / 2, e_pz = uz * me / 2,
              p_px = ux * me / 2, p_py = uy * me / 2, p_pz = uz * me / 2,
              e_w = 1, p_w = 1 \<rparr>"
  shows "\<exists>dst1' dst2' src' rng'.
           PairGenerationTransformFunc g me rng dst1 dst2 src i_src i_dst1 i_dst2
             = Some (dst1', dst2', src', rng')
         \<and> weight_at dst1' i_dst1 = 1
         \<and> momentum_at dst1' i_dst1 = (ux / 2, uy / 2, uz / 2)
         \<and> weight_at dst2' i_dst2 = 1
         \<and> momentum_at dst2' i_dst2 = (ux / 2, uy / 2, uz / 2)
         \<and> length (m_aos dst1') = length (m_aos dst1)
         \<and> length (m_aos dst2') = length (m_aos dst2)
         \<and> id_of (m_aos src' ! nat i_src) = - 1
         \<and> id_of (m_aos src' ! nat i_src) < 0"
proof -
  have u: "m_rdata src ! nat PIdx_ux ! nat i_src = ux" "m_rdata src ! nat PIdx_uy ! nat i_src = uy"
          "m_rdata src ! nat PIdx_uz ! nat i_src = uz" "m_rdata src ! nat PIdx_w ! nat i_src = 1"
    using assms(6,7) by (simp_all add: weight_at_def momentum_at_def)
  have out: "fst (call_generate g me (m_rdata src) i_src rng)
          = \<lparr> e_px = ux * me / 2, e_py = uy * me / 2, e_pz = uz * me / 2,
              p_px = ux * me / 2, p_py = uy * me / 2, p_pz = uz * me / 2,
              e_w = 1, p_w = 1 \<rparr>"
    unfolding call_generate_def u by (rule assms(8))
  have "nat i_src < length (m_aos src)" by (rule has_slotD(2)[OF assms(2)])
  then show ?thesis
    unfolding transform_step[OF assms(1-4)] out
    using assms(1) weight_write_daughter(1,2)[OF assms(3)] weight_write_daughter(1,2)[OF assms(4)]
    by simp
qed

text \<open>
  Claim C8 on the first photon of the photon tile (weight 1, momentum \<open>(2, 4, 6)\<close>),
  electron mass constant 2 and two product tiles of one slot.
\<close>

theorem C8_one_photon_witness:
  "\<exists>dst1' dst2' src' rng'.
           PairGenerationTransformFunc half_momentum_double 2 () (product_tile 1) (product_tile 1)
               photon_tile 0 0 0
             = Some (dst1', dst2', src', rng')
         \<and> weight_at dst1' 0 = 1
         \<and> momentum_at dst1' 0 = (2 / 2, 4 / 2, 6 / 2)
         \<and> weight_at dst2' 0 = 1
         \<and> momentum_at dst2' 0 = (2 / 2, 4 / 2, 6 / 2)
         \<and> length (m_aos dst1') = length (m_aos (product_tile 1))
         \<and> length (m_aos dst2') = length (m_aos (product_tile 1))
         \<and> id_of (m_aos src' ! nat 0) = - 1
         \<and> id_of (m_aos src' ! nat 0) < 0"
proof -
  have h1: "(2::real) \<noteq> 0" by simp
  have h2: "has_slot False (product_tile 1) 0" by (simp add: has_slot_product_tile)
  have h3: "weight_at photon_tile 0 = 1" "momentum_at photon_tile 0 = (2, 4, 6)"
    by (simp_all add: weight_at_def momentum_at_def photon_tile_def PIdx_defs)
  show ?thesis
    by (rule C8_one_photon[OF h1 has_slot_photon_tile(1) h2 h2 flagged_photon_tile(1) h3])
       (simp add: half_momentum_double_def)
qed

text \<open>Claim C10 on the second photon of the photon tile, with destination slots 1 and 0.\<close>

theorem C10_transform_frame_witness:
  "\<exists>dst1' dst2' src' rng'.
           PairGenerationTransformFunc half_momentum_double 2 () (product_tile 2) (product_tile 1)
               photon_tile 1 1 0
             = Some (dst1', dst2', src', rng')
         \<and> m_rdata src' = m_rdata photon_tile
         \<and> m_runtime_rdata src' = m_runtime_rdata photon_tile
         \<and> length (m_aos src') = length (m_aos photon_tile)
         \<and> pos (m_aos src' ! nat 1) = pos (m_aos photon_tile ! nat 1)
         \<and> cpu (m_aos src' ! nat 1) = cpu (m_aos photon_tile ! nat 1)
         \<and> id_of (m_aos src' ! nat 1) = - 1
         \<and> (\<forall>j. j \<noteq> nat 1 \<longrightarrow> m_aos src' ! j = m_aos photon_tile ! j)
         \<and> m_aos dst1' = m_aos (product_tile 2)
         \<and> m_runtime_rdata dst1' = m_runtime_rdata (product_tile 2)
         \<and> length (m_rdata dst1') = length (m_rdata (product_tile 2))
         \<and> (\<forall>c. length (m_rdata dst1' ! c) = length (m_rdata (product_tile 2) ! c))
         \<and> (\<forall>c j. \<not> (c \<le> 3 \<and> j = nat 1) \<longrightarrow>
               m_rdata dst1' ! c ! j = m_rdata (product_tile 2) ! c ! j)
         \<and> m_aos dst2' = m_aos (product_tile 1)
         \<and> m_runtime_rdata dst2' = m_runtime_rdata (product_tile 1)
         \<and> length (m_rdata dst2') = length (m_rdata (product_tile 1))
         \<and> (\<forall>c. length (m_rdata dst2' ! c) = length (m_rdata (product_tile 1) ! c))
         \<and> (\<forall>c j. \<not> (c \<le> 3 \<and> j = nat 0) \<longrightarrow>
               m_rdata dst2' ! c ! j = m_rdata (product_tile 1) ! c ! j)"
proof -
  have h1: "(2::real) \<noteq> 0" by simp
  have h2: "has_slot False (product_tile 2) 1" "has_slot False (product_tile 1) 0"
    by (simp_all add: has_slot_product_tile)
  show ?thesis
    by (rule C10_transform_frame[OF h1 has_slot_photon_tile(2) h2])
qed


section \<open>Properties of attribute registration\<close>

lemma NumRealComps_AddRealComp:
  "NumRealComps rz (AddRealComp rz name comm pc) = NumRealComps rz pc + 1"
  by (simp add: AddRealComp_def AddRealComp_base_def NumRealComps_def Let_def)

lemma comps_AddRealComp:
  "particle_comps (AddRealComp rz name comm pc) = (particle_comps pc)(name \<mapsto> NumRealComps rz pc)"
  "particle_runtime_comps (AddRealComp rz name comm pc) =
     (particle_runtime_comps pc)(name \<mapsto> NumRealComps rz pc - PIdx_nattribs rz)"
  by (simp_all add: AddRealComp_def AddRealComp_base_def NumRealComps_def Let_def)

lemma NumRealComps_AddRealComps:
  "NumRealComps rz (AddRealComps rz regs pc) = NumRealComps rz pc + int (length regs)"
  by (induction regs arbitrary: pc) (auto simp: NumRealComps_AddRealComp)

lemma comps_AddRealComps_other:
  "name \<notin> set (map fst regs) \<Longrightarrow>
     particle_comps (AddRealComps rz regs pc) name = particle_comps pc name
   \<and> particle_runtime_comps (AddRealComps rz regs pc) name = particle_runtime_comps pc name"
  by (induction regs arbitrary: pc) (auto simp: comps_AddRealComp)

lemma AddRealComps_snoc:
  "AddRealComps rz (regs @ [(name, comm)]) pc = AddRealComp rz name comm (AddRealComps rz regs pc)"
  by (induction regs arbitrary: pc) auto

lemma AddRealComps_kth:
  assumes "k < length regs"
  shows "particle_comps (AddRealComps rz (take (Suc k) regs) pc) (fst (regs ! k))
           = Some (NumRealComps rz pc + int k)"
    and "particle_runtime_comps (AddRealComps rz (take (Suc k) regs) pc) (fst (regs ! k))
           = Some (NumRealComps rz pc + int k - PIdx_nattribs rz)"
proof -
  have "take (Suc k) regs = take k regs @ [(fst (regs ! k), snd (regs ! k))]"
    using assms by (simp add: take_Suc_conv_app_nth)
  then have e: "AddRealComps rz (take (Suc k) regs) pc
             = AddRealComp rz (fst (regs ! k)) (snd (regs ! k)) (AddRealComps rz (take k regs) pc)"
    by (simp only: AddRealComps_snoc)
  have n: "NumRealComps rz (AddRealComps rz (take k regs) pc) = NumRealComps rz pc + int k"
    using assms by (simp add: NumRealComps_AddRealComps)
  show "particle_comps (AddRealComps rz (take (Suc k) regs) pc) (fst (regs ! k))
           = Some (NumRealComps rz pc + int k)"
    unfolding e by (simp add: comps_AddRealComp n)
  show "particle_runtime_comps (AddRealComps rz (take (Suc k) regs) pc) (fst (regs ! k))
           = Some (NumRealComps rz pc + int k - PIdx_nattribs rz)"
    unfolding e by (simp add: comps_AddRealComp n)
qed

text \<open>
  Claim C9 says that a slot once assigned to a name is never changed by later
  registrations. Registering the name \<open>a\<close> a second time moves it from slot 10 to
  slot 11.
\<close>

theorem C9_counterexample:
  "particle_comps (AddRealComp False ''a'' True fresh_container) ''a'' = Some 10
 \<and> particle_comps (AddRealComp False ''a'' True (AddRealComp False ''a'' True fresh_container)) ''a''
     = Some 11"
  by (simp add: comps_AddRealComp NumRealComps_AddRealComp)
     (simp add: NumRealComps_def fresh_container_def PIdx_nattribs_def)

text \<open>
  Claim C9, amended. \<^verbatim>\<open>AddRealComp(name)\<close> records the name in \<^verbatim>\<open>particle_comps\<close> at
  the number of real components existing at registration time and in
  \<^verbatim>\<open>particle_runtime_comps\<close> at that number minus \<^verbatim>\<open>PIdx::nattribs\<close>; that number is
  at least \<^verbatim>\<open>PIdx::nattribs\<close> and grows by one with every registration, so registration
  \<open>k\<close> of a sequence gets the slot \<open>k\<close> above the starting count; and later
  registrations under other names leave the slot of a name unchanged.
\<close>

theorem C9_registration:
  "particle_comps (AddRealComp rz name comm pc) name = Some (NumRealComps rz pc)
 \<and> particle_runtime_comps (AddRealComp rz name comm pc) name
      = Some (NumRealComps rz pc - PIdx_nattribs rz)
 \<and> PIdx_nattribs rz \<le> NumRealComps rz pc
 \<and> NumRealComps rz (AddRealComp rz name comm pc) = NumRealComps rz pc + 1
 \<and> NumRealComps rz (AddRealComps rz regs pc) = NumRealComps rz pc + int (length regs)
 \<and> (k < length regs \<longrightarrow>
      particle_comps (AddRealComps rz (take (Suc k) regs) pc) (fst (regs ! k))
        = Some (NumRealComps rz pc + int k)
    \<and> particle_runtime_comps (AddRealComps rz (take (Suc k) regs) pc) (fst (regs ! k))
        = Some (NumRealComps rz pc + int k - PIdx_nattribs rz))
 \<and> (name \<notin> set (map fst later) \<longrightarrow>
      particle_comps (AddRealComps rz later (AddRealComp rz name comm pc)) name
        = Some (NumRealComps rz pc)
    \<and> particle_runtime_comps (AddRealComps rz later (AddRealComp rz name comm pc)) name
        = Some (NumRealComps rz pc - PIdx_nattribs rz))"
proof -
  have "name \<notin> set (map fst later) \<Longrightarrow>
      particle_comps (AddRealComps rz later (AddRealComp rz name comm pc)) name
        = Some (NumRealComps rz pc)
    \<and> particle_runtime_comps (AddRealComps rz later (AddRealComp rz name comm pc)) name
        = Some (NumRealComps rz pc - PIdx_nattribs rz)"
    using comps_AddRealComps_other[of name later rz "AddRealComp rz name comm pc"]
    by (simp add: comps_AddRealComp)
  moreover have "PIdx_nattribs rz \<le> NumRealComps rz pc" by (simp add: NumRealComps_def)
  ultimately show ?thesis
    using AddRealComps_kth[of k regs rz pc]
    by (simp add: comps_AddRealComp NumRealComps_AddRealComp NumRealComps_AddRealComps)
qed

text \<open>Claim C9, amended, on a container in which nothing was registered before.\<close>

theorem C9_registration_witness:
  "particle_comps (AddRealComp False ''opt'' True fresh_container) ''opt'' = Some 10
 \<and> particle_runtime_comps (AddRealComp False ''opt'' True fresh_container) ''opt'' = Some 0
 \<and> NumRealComps False (AddRealComp False ''opt'' True fresh_container) = 11
 \<and> NumRealComps False (AddRealComps False [(''a'', True), (''b'', False)] fresh_container) = 12
 \<and> particle_comps (AddRealComps False [(''a'', True), (''b'', False)] fresh_container) ''b''
      = Some 11
 \<and> particle_runtime_comps (AddRealComps False [(''a'', True), (''b'', False)] fresh_container) ''b''
      = Some 1
 \<and> ''opt'' \<notin> set (map fst [(''a'', True), (''b'', False)])
 \<and> particle_comps (AddRealComps False [(''a'', True), (''b'', False)]
                      (AddRealComp False ''opt'' True fresh_container)) ''opt'' = Some 10
 \<and> particle_runtime_comps (AddRealComps False [(''a'', True), (''b'', False)]
                      (AddRealComp False ''opt'' True fresh_container)) ''opt'' = Some 0"
proof -
  have n: "NumRealComps False fresh_container = 10" "PIdx_nattribs False = 10"
    by (simp_all add: NumRealComps_def fresh_container_def PIdx_nattribs_def)
  have d: "''opt'' \<notin> set (map fst [(''a'', True), (''b'', False)])" by simp
  show ?thesis
    using C9_registration[of False "''opt''" True fresh_container
            "[(''a'', True), (''b'', False)]" 1 "[(''a'', True), (''b'', False)]"] d
    unfolding n by simp
qed


end
